theory Spec2Isabelle
  imports Complex_Main "HOL-Library.Sublist"
begin

section \<open>The render pass of src/platform/graphics/render-pass.js\<close>

text \<open>
  The classes \<open>ColorAttachmentOps\<close>, \<open>DepthStencilAttachmentOps\<close> and \<open>RenderPass\<close> are
  embedded as records, their methods as functions that take the object and return it
  updated. A statement that can fault in JavaScript (a property access on \<open>undefined\<close>)
  is a branch of the model: the outcome of a method says whether it returned or threw,
  and in both cases carries the state the method left behind, since JavaScript does not
  undo the writes made before an exception.
\<close>

subsection \<open>Outcomes\<close>

datatype error = TypeError | Raised nat
  \<comment> \<open>\<open>TypeError\<close>: property access on \<open>undefined\<close> or \<open>null\<close>;
      \<open>Raised k\<close>: whatever a caller-supplied function throws\<close>

datatype 's result = Returns 's | Throws error 's

fun andThen :: "'s result \<Rightarrow> ('s \<Rightarrow> 's result) \<Rightarrow> 's result" where
  "andThen (Returns s) f = f s"
| "andThen (Throws e s) f = Throws e s"

fun state_of :: "'s result \<Rightarrow> 's" where
  "state_of (Returns s) = s"
| "state_of (Throws e s) = s"

fun returned :: "'s result \<Rightarrow> bool" where
  "returned (Returns s) = True"
| "returned (Throws e s) = False"

fun map_result :: "('s \<Rightarrow> 't) \<Rightarrow> 's result \<Rightarrow> 't result" where
  "map_result h (Returns s) = Returns (h s)"
| "map_result h (Throws e s) = Throws e (h s)"

subsection \<open>Values of the collaborators\<close>

text \<open>
  Modelled from the spec: the class \<open>Color\<close> is imported from core/math/color.js, which
  is not among the sources. The spec calls the clear value an RGBA color, opaque black by
  default.
\<close>

record Color =
  r :: real
  g :: real
  b :: real
  a :: real

text \<open>
  Modelled from the spec: \<open>Color.copy\<close> is a method of that class, not among the sources
  either. The spec asks for a field-wise copy of a clear color into \<open>clearValue\<close>:
  \<open>copy dst src\<close> is \<open>dst.copy(src)\<close>, the destination after the call.
\<close>

definition copy :: "Color \<Rightarrow> Color \<Rightarrow> Color" where
  "copy dst src = dst\<lparr>r := r src, g := g src, b := b src, a := a src\<rparr>"

text \<open>
  A reference that JavaScript distinguishes three ways: \<open>undefined\<close>, \<open>null\<close> and an
  object. \<open>RenderPass.renderTarget\<close> and the argument of \<open>init\<close> are of this kind.
\<close>

datatype 'a js_ref = Undefined | Null | Obj 'a

text \<open>
  What \<open>init\<close> reads of a render target: \<open>samples\<close>, and \<open>_colorBuffers\<close>, which a
  target without color buffers does not have (\<open>None\<close>); of a color buffer it reads
  \<open>mipmaps\<close>. Of the device, the pass reads \<open>samples\<close> and \<open>backBuffer\<close> and counts in
  \<open>renderPassIndex\<close>.
\<close>

record Texture =
  tex_mipmaps :: bool

record RenderTarget =
  rt_samples :: int
  rt_colorBuffers :: "Texture list option"

text \<open>
  The device's \<open>backBuffer\<close> is a render target too. Of it, \<open>log\<close> reads \<open>name\<close>, \<open>impl\<close>
  with its \<open>assignedColorTexture\<close> (as far as it is truthy) and \<open>suppliedColorFramebuffer\<close>
  (as far as it is not \<open>undefined\<close>), \<open>_colorBuffers\<close>, \<open>depth\<close> and \<open>stencil\<close>.
\<close>

record RenderTargetImpl =
  assignedColorTexture :: bool
  suppliedColorFramebuffer :: bool

record BackBuffer =
  bb_name :: "string option"
  bb_impl :: "RenderTargetImpl option"
  bb_colorBuffers :: "Texture list option"
  bb_depth :: bool
  bb_stencil :: bool

record GraphicsDevice =
  dev_samples :: int
  renderPassIndex :: int
  backBuffer :: "BackBuffer js_ref"

subsection \<open>The attachment operations\<close>

record ColorAttachmentOps =
  clearValue :: Color
  clear :: bool
  store :: bool
  resolve :: bool
  mipmaps :: bool

definition new_ColorAttachmentOps :: ColorAttachmentOps where
  "new_ColorAttachmentOps =
     \<lparr>clearValue = \<lparr>r = 0, g = 0, b = 0, a = 1\<rparr>,
      clear = False, store = False, resolve = True, mipmaps = False\<rparr>"

record DepthStencilAttachmentOps =
  clearDepthValue :: real
  clearStencilValue :: int
  clearDepth :: bool
  clearStencil :: bool
  storeDepth :: bool
  storeStencil :: bool

definition new_DepthStencilAttachmentOps :: DepthStencilAttachmentOps where
  "new_DepthStencilAttachmentOps =
     \<lparr>clearDepthValue = 1, clearStencilValue = 0, clearDepth = False,
      clearStencil = False, storeDepth = False, storeStencil = False\<rparr>"

subsection \<open>The pass\<close>

text \<open>
  The data fields of \<open>RenderPass\<close>. A field declared without initialiser is \<open>undefined\<close>
  until it is assigned: \<open>name\<close> and \<open>depthStencilOps\<close> are options, \<open>renderTarget\<close> a
  \<open>js_ref\<close>. The three function fields are kept in a record of their own, \<open>Callbacks\<close>
  below.
\<close>

record RenderPass =
  name :: "string option"
  renderTarget :: "RenderTarget js_ref"
  samples :: int
  colorArrayOps :: "ColorAttachmentOps list"
  depthStencilOps :: "DepthStencilAttachmentOps option"
  requiresCubemaps :: bool
  fullSizeClearRect :: bool

definition new_RenderPass :: RenderPass where
  "new_RenderPass =
     \<lparr>name = None, renderTarget = Undefined, samples = 0, colorArrayOps = [],
      depthStencilOps = None, requiresCubemaps = True, fullSizeClearRect = True\<rparr>"

subsection \<open>init\<close>

text \<open>
  \<open>this.colorArrayOps[i] = colorOps\<close>: an index inside the array overwrites, the index
  \<open>length\<close> appends. A larger index would leave holes in a JavaScript array; the loop of
  \<open>init\<close> counts up from 0 and never writes one (lemma \<open>init_loop_index\<close>).
\<close>

definition array_set :: "'a list \<Rightarrow> nat \<Rightarrow> 'a \<Rightarrow> 'a list" where
  "array_set xs i v = (if i < length xs then xs[i := v] else xs @ [v])"

text \<open>
  \<open>i < numColorOps\<close>, where \<open>numColorOps\<close> is \<open>undefined\<close> when the target has no
  \<open>_colorBuffers\<close>: the comparison with \<open>undefined\<close> is false.
\<close>

fun js_less :: "nat \<Rightarrow> nat option \<Rightarrow> bool" where
  "js_less i None = False"
| "js_less i (Some n) = (i < n)"

text \<open>
  \<open>renderTarget || null\<close>: the falsy references \<open>undefined\<close> and \<open>null\<close> become \<open>null\<close>.
\<close>

fun or_null :: "'a js_ref \<Rightarrow> 'a js_ref" where
  "or_null (Obj t) = Obj t"
| "or_null _ = Null"

text \<open>
  \<open>renderTarget ? renderTarget._colorBuffers?.length : 1\<close>
\<close>

fun numColorOps :: "RenderTarget js_ref \<Rightarrow> nat option" where
  "numColorOps (Obj t) = map_option length (rt_colorBuffers t)"
| "numColorOps _ = Some 1"

text \<open>
  \<open>this.renderTarget?._colorBuffers?.[i].mipmaps\<close>: the optional chain yields \<open>undefined\<close>
  (falsy) when the target or its \<open>_colorBuffers\<close> is missing; with \<open>_colorBuffers\<close>
  present, reading \<open>mipmaps\<close> of an element beyond its end is a TypeError.
\<close>

fun colorBuffer_mipmaps :: "RenderTarget js_ref \<Rightarrow> nat \<Rightarrow> error + bool" where
  "colorBuffer_mipmaps (Obj t) i =
     (case rt_colorBuffers t of
        None \<Rightarrow> Inr False
      | Some bufs \<Rightarrow> if i < length bufs then Inr (tex_mipmaps (bufs ! i)) else Inl TypeError)"
| "colorBuffer_mipmaps _ i = Inr False"

text \<open>The two conditional assignments of the loop body.\<close>

definition single_sample_rule :: "int \<Rightarrow> ColorAttachmentOps \<Rightarrow> ColorAttachmentOps" where
  "single_sample_rule smp c = (if smp = 1 then c\<lparr>store := True, resolve := False\<rparr> else c)"

definition mipmaps_rule :: "bool \<Rightarrow> ColorAttachmentOps \<Rightarrow> ColorAttachmentOps" where
  "mipmaps_rule m c = (if m then c\<lparr>mipmaps := True\<rparr> else c)"

text \<open>
  The loop \<open>for (let i = 0; i < numColorOps; i++)\<close> on the array, with \<open>this.samples\<close> and
  \<open>this.renderTarget\<close> as they are after the first lines of \<open>init\<close>. The source stores the
  new object in the array and then assigns its fields through the reference; the array
  of values holds the object as it is at the end of the iteration, or as it is when the
  read of \<open>mipmaps\<close> throws.
\<close>

function init_loop ::
  "int \<Rightarrow> RenderTarget js_ref \<Rightarrow> nat option \<Rightarrow> nat \<Rightarrow> ColorAttachmentOps list
     \<Rightarrow> ColorAttachmentOps list result" where
  "init_loop smp rt n i arr =
     (if js_less i n then
        (let colorOps = single_sample_rule smp new_ColorAttachmentOps in
         case colorBuffer_mipmaps rt i of
           Inl e \<Rightarrow> Throws e (array_set arr i colorOps)
         | Inr m \<Rightarrow> init_loop smp rt n (Suc i) (array_set arr i (mipmaps_rule m colorOps)))
      else Returns arr)"
  by pat_completeness auto
termination
  by (relation "measure (\<lambda>(smp, rt, n, i, arr). the n - i)") (auto elim: js_less.elims)

definition init :: "GraphicsDevice \<Rightarrow> RenderTarget js_ref \<Rightarrow> RenderPass \<Rightarrow> RenderPass result" where
  "init device renderTarget_arg p =
     (let p = p\<lparr>renderTarget := or_null renderTarget_arg\<rparr>;
          p = p\<lparr>samples :=
                  max (case renderTarget p of Obj t \<Rightarrow> rt_samples t | _ \<Rightarrow> dev_samples device) 1\<rparr>;
          p = p\<lparr>depthStencilOps := Some new_DepthStencilAttachmentOps\<rparr>
      in map_result (\<lambda>arr. p\<lparr>colorArrayOps := arr\<rparr>)
           (init_loop (samples p) (renderTarget p) (numColorOps renderTarget_arg) 0
              (colorArrayOps p)))"

subsection \<open>The clear declarations\<close>

text \<open>
  \<open>setClearColor\<close>: the loop over \<open>count = this.colorArrayOps.length\<close> indices. An index
  beyond the array would read \<open>undefined\<close> and fault on its \<open>clearValue\<close>; the loop never
  reaches one (lemma \<open>setClearColor_loop_eq\<close>).
\<close>

function setClearColor_loop ::
  "Color \<Rightarrow> nat \<Rightarrow> nat \<Rightarrow> ColorAttachmentOps list \<Rightarrow> ColorAttachmentOps list result" where
  "setClearColor_loop color count i arr =
     (if i < count then
        (if i < length arr then
           (let colorOps = arr ! i;
                colorOps = colorOps\<lparr>clearValue := copy (clearValue colorOps) color\<rparr>;
                colorOps = colorOps\<lparr>clear := True\<rparr>
            in setClearColor_loop color count (Suc i) (arr[i := colorOps]))
         else Throws TypeError arr)
      else Returns arr)"
  by pat_completeness auto
termination
  by (relation "measure (\<lambda>(color, count, i, arr). count - i)") auto

definition setClearColor :: "Color \<Rightarrow> RenderPass \<Rightarrow> RenderPass result" where
  "setClearColor color p =
     (let count = length (colorArrayOps p)
      in map_result (\<lambda>arr. p\<lparr>colorArrayOps := arr\<rparr>)
           (setClearColor_loop color count 0 (colorArrayOps p)))"

text \<open>
  \<open>setClearDepth\<close> and \<open>setClearStencil\<close> assign through \<open>this.depthStencilOps\<close>, which is
  \<open>undefined\<close> before \<open>init\<close>: the first assignment then throws, with nothing written.
\<close>

definition setClearDepth :: "real \<Rightarrow> RenderPass \<Rightarrow> RenderPass result" where
  "setClearDepth depthValue p =
     (case depthStencilOps p of
        None \<Rightarrow> Throws TypeError p
      | Some d \<Rightarrow>
          Returns (p\<lparr>depthStencilOps := Some (d\<lparr>clearDepthValue := depthValue, clearDepth := True\<rparr>)\<rparr>))"

definition setClearStencil :: "int \<Rightarrow> RenderPass \<Rightarrow> RenderPass result" where
  "setClearStencil stencilValue p =
     (case depthStencilOps p of
        None \<Rightarrow> Throws TypeError p
      | Some d \<Rightarrow>
          Returns (p\<lparr>depthStencilOps :=
                       Some (d\<lparr>clearStencilValue := stencilValue, clearStencil := True\<rparr>)\<rparr>))"

subsection \<open>render\<close>

text \<open>
  \<open>render\<close> runs on the pass and on the device the pass was constructed with. The
  function fields \<open>before\<close>, \<open>execute\<close> and \<open>after\<close> of the pass hold references to function
  objects, or are \<open>undefined\<close>; \<open>render\<close> reads each of them when it reaches the call, so a
  function called earlier can set, replace or remove it. They are kept in a record of
  their own, beside the data fields of the pass, and a world is the pass with its
  function fields and the device.
\<close>

type_synonym fn = nat

record Callbacks =
  before :: "fn option"
  execute :: "fn option"
  after :: "fn option"

text \<open>The constructor \<open>RenderPass(graphicsDevice, execute)\<close> sets \<open>execute\<close> only.\<close>

definition new_Callbacks :: "fn option \<Rightarrow> Callbacks" where
  "new_Callbacks exec = \<lparr>before = None, execute = exec, after = None\<rparr>"

record world =
  w_pass :: RenderPass
  w_callbacks :: Callbacks
  w_device :: GraphicsDevice

type_synonym action = "world \<Rightarrow> world result"

text \<open>
  The functions that \<open>render\<close> and \<open>log\<close> call and that this file does not define. The
  function objects behind the references (\<open>closures\<close>) and the device's \<open>startPass\<close> and
  \<open>endPass\<close>, which are handed the pass, are arbitrary actions on the world that return
  or throw. \<open>DebugGraphics.pushGpuMarker\<close> and \<open>popGpuMarker\<close> are handed the device,
  \<open>Debug.trace\<close> a channel and a line of text, \<open>Tracing.get\<close> a channel. A function is
  terminating and deterministic here.
\<close>

datatype trace_id = TRACEID_RENDER_PASS | TRACEID_RENDER_PASS_DETAIL

record Collaborators =
  closures :: "fn \<Rightarrow> action"
  startPass :: action
  endPass :: action
  pushGpuMarker :: "string \<Rightarrow> GraphicsDevice \<Rightarrow> GraphicsDevice result"
  popGpuMarker :: "GraphicsDevice \<Rightarrow> GraphicsDevice result"
  debug :: bool
  Tracing_get :: "trace_id \<Rightarrow> bool"
  Debug_trace :: "trace_id \<Rightarrow> string \<Rightarrow> error option"

text \<open>
  Modelled from the spec: \<open>Debug.call\<close> is imported from core/debug.js, which is not among
  the sources. The spec has the description renderer \<open>log\<close> as debug-only, retained in a
  diagnostic build and omitted otherwise: in a diagnostic build (\<open>debug\<close>) \<open>Debug.call\<close>
  calls the function it is given, otherwise it does nothing.
\<close>

definition Debug_call :: "bool \<Rightarrow> action \<Rightarrow> action" where
  "Debug_call dbg f = (if dbg then f else Returns)"

text \<open>A function that is handed the device only.\<close>

definition on_device :: "(GraphicsDevice \<Rightarrow> GraphicsDevice result) \<Rightarrow> action" where
  "on_device h w = map_result (\<lambda>d. w\<lparr>w_device := d\<rparr>) (h (w_device w))"

text \<open>\<open>Debug.trace(channel, line)\<close>: it returns or throws, and has no hold on the world.\<close>

definition trace :: "(trace_id \<Rightarrow> string \<Rightarrow> error option) \<Rightarrow> trace_id \<Rightarrow> string \<Rightarrow> action" where
  "trace out channel line w =
     (case out channel line of None \<Rightarrow> Returns w | Some e \<Rightarrow> Throws e w)"

subsubsection \<open>The text of the trace lines\<close>

text \<open>\<open>Number.prototype.toString\<close> on an integer, and \<open>String.prototype.padEnd(n, ' ')\<close>.\<close>

function nat_digits :: "nat \<Rightarrow> string" where
  "nat_digits n =
     (if n < 10 then [''0123456789'' ! n]
      else nat_digits (n div 10) @ [''0123456789'' ! (n mod 10)])"
  by pat_completeness auto
termination
  by (relation "measure id") auto

definition toString :: "int \<Rightarrow> string" where
  "toString i = (if i < 0 then CHR ''-'' # nat_digits (nat (- i)) else nat_digits (nat i))"

definition padEnd :: "nat \<Rightarrow> string \<Rightarrow> string" where
  "padEnd n s = s @ replicate (n - length s) CHR '' ''"

subsubsection \<open>log\<close>

text \<open>
  \<open>const rt = this.renderTarget === null ? this.renderTarget ?? device.backBuffer : null\<close>:
  where \<open>renderTarget\<close> is \<open>null\<close>, the \<open>??\<close> yields \<open>device.backBuffer\<close> as it is; \<open>rt\<close> is
  \<open>null\<close> for a pass with a target and for a pass never initialised.
\<close>

definition log_rt :: "world \<Rightarrow> BackBuffer js_ref" where
  "log_rt w = (if renderTarget (w_pass w) = Null then backBuffer (w_device w) else Null)"

text \<open>
  \<open>!!rt?.impl.assignedColorTexture || rt?.impl.suppliedColorFramebuffer !== undefined\<close>:
  false on a missing \<open>rt\<close>, a TypeError on an \<open>rt\<close> without \<open>impl\<close>.
\<close>

fun log_isBackBuffer :: "BackBuffer js_ref \<Rightarrow> error + bool" where
  "log_isBackBuffer (Obj bb) =
     (case bb_impl bb of
        None \<Rightarrow> Inl TypeError
      | Some i \<Rightarrow> Inr (assignedColorTexture i \<or> suppliedColorFramebuffer i))"
| "log_isBackBuffer _ = Inr False"

text \<open>\<open>rt?._colorBuffers?.length ?? (isBackBuffer ? 1 : 0)\<close>\<close>

fun log_numColor :: "BackBuffer js_ref \<Rightarrow> bool \<Rightarrow> nat" where
  "log_numColor (Obj bb) isBackBuffer =
     (case bb_colorBuffers bb of
        Some bufs \<Rightarrow> length bufs
      | None \<Rightarrow> if isBackBuffer then 1 else 0)"
| "log_numColor _ isBackBuffer = (if isBackBuffer then 1 else 0)"

text \<open>\<open>rt?.depth\<close> and \<open>rt?.stencil\<close>, as far as they are truthy.\<close>

fun log_hasDepth :: "BackBuffer js_ref \<Rightarrow> bool" where
  "log_hasDepth (Obj bb) = bb_depth bb"
| "log_hasDepth _ = False"

fun log_hasStencil :: "BackBuffer js_ref \<Rightarrow> bool" where
  "log_hasStencil (Obj bb) = bb_stencil bb"
| "log_hasStencil _ = False"

definition log_rtInfo :: "RenderPass \<Rightarrow> BackBuffer js_ref \<Rightarrow> nat \<Rightarrow> bool \<Rightarrow> bool \<Rightarrow> string" where
  "log_rtInfo p rt numColor hasDepth hasStencil =
     (if rt = Undefined then ''''
      else '' RT: ''
        @ (case rt of
             Obj bb \<Rightarrow> (case bb_name bb of None \<Rightarrow> ''undefined'' | Some n \<Rightarrow> n)
           | _ \<Rightarrow> ''NULL'')
        @ '' ''
        @ (if numColor > 0
           then ''[Color'' @ (if numColor > 1 then '' x '' @ toString (int numColor) else '''')
                @ '']''
           else '''')
        @ (if hasDepth then ''[Depth]'' else '''')
        @ (if hasStencil then ''[Stencil]'' else '''')
        @ (if samples p > 0 then '' samples: '' @ toString (samples p) else ''''))"

definition log_color_line :: "nat \<Rightarrow> ColorAttachmentOps \<Rightarrow> string" where
  "log_color_line i colorOps =
     ''    color['' @ toString (int i) @ '']: ''
     @ (if clear colorOps then ''clear'' else ''load'') @ ''->''
     @ (if store colorOps then ''store'' else ''discard'') @ '' ''
     @ (if resolve colorOps then ''resolve '' else '''')
     @ (if mipmaps colorOps then ''mipmaps '' else '''')"

text \<open>
  The loop \<open>for (let i = 0; i < numColor; i++)\<close>: an index beyond \<open>colorArrayOps\<close> reads
  \<open>undefined\<close>, and the line faults on its \<open>clear\<close>.
\<close>

function log_colors :: "(trace_id \<Rightarrow> string \<Rightarrow> error option) \<Rightarrow> nat \<Rightarrow> nat \<Rightarrow> action" where
  "log_colors out numColor i w =
     (if i < numColor then
        (if i < length (colorArrayOps (w_pass w)) then
           andThen
             (trace out TRACEID_RENDER_PASS_DETAIL
                (log_color_line i (colorArrayOps (w_pass w) ! i)) w)
             (log_colors out numColor (Suc i))
         else Throws TypeError w)
      else Returns w)"
  by pat_completeness auto
termination
  by (relation "measure (\<lambda>(out, numColor, i, w). numColor - i)") auto

text \<open>
  \<open>log(device, index)\<close>, given \<open>Tracing.get\<close> as \<open>enabled\<close> and \<open>Debug.trace\<close> as \<open>out\<close>. The
  first line
  is put together from \<open>index\<close>, then \<open>this.name.padEnd\<close>, a TypeError on a pass without
  a name, then \<open>rtInfo\<close>.
\<close>

definition log_pass ::
  "(trace_id \<Rightarrow> bool) \<Rightarrow> (trace_id \<Rightarrow> string \<Rightarrow> error option) \<Rightarrow> int \<Rightarrow> action" where
  "log_pass enabled out index w =
     (if enabled TRACEID_RENDER_PASS \<or> enabled TRACEID_RENDER_PASS_DETAIL then
        (let rt = log_rt w in
         case log_isBackBuffer rt of
           Inl e \<Rightarrow> Throws e w
         | Inr isBackBuffer \<Rightarrow>
             (let numColor = log_numColor rt isBackBuffer;
                  hasDepth = log_hasDepth rt;
                  hasStencil = log_hasStencil rt;
                  rtInfo = log_rtInfo (w_pass w) rt numColor hasDepth hasStencil
              in
              andThen
                (case name (w_pass w) of
                   None \<Rightarrow> Throws TypeError w
                 | Some n \<Rightarrow>
                     trace out TRACEID_RENDER_PASS
                       (padEnd 2 (toString index) @ '': '' @ padEnd 20 n @ padEnd 30 rtInfo) w)
                (\<lambda>w.
              andThen (log_colors out numColor 0 w) (\<lambda>w.
              (case depthStencilOps (w_pass w) of
                 None \<Rightarrow> Returns w
               | Some d \<Rightarrow>
                   andThen
                     (if hasDepth then
                        trace out TRACEID_RENDER_PASS_DETAIL
                          (''    depthOps: '' @ (if clearDepth d then ''clear'' else ''load'')
                           @ ''->'' @ (if storeDepth d then ''store'' else ''discard'')) w
                      else Returns w)
                     (\<lambda>w.
                      if hasStencil then
                        trace out TRACEID_RENDER_PASS_DETAIL
                          (''    stencOps: '' @ (if clearStencil d then ''clear'' else ''load'')
                           @ ''->'' @ (if storeStencil d then ''store'' else ''discard'')) w
                      else Returns w))))))
      else Returns w)"

subsubsection \<open>render\<close>

text \<open>
  The calls that \<open>render\<close> itself makes are recorded, in the order in which it makes
  them, in a list of events that the called functions cannot reach.
\<close>

datatype event =
    PushGpuMarker string
  | DebugCall
  | CallBefore
  | StartPass
  | CallExecute
  | EndPass
  | CallAfter
  | IncRenderPassIndex
  | PopGpuMarker

type_synonym run_state = "event list \<times> world"

text \<open>A call: the event is recorded, the action runs, its outcome is the call's.\<close>

fun call :: "event \<Rightarrow> action \<Rightarrow> run_state \<Rightarrow> run_state result" where
  "call ev f (evs, w) =
     (case f w of
        Returns w' \<Rightarrow> Returns (evs @ [ev], w')
      | Throws e w' \<Rightarrow> Throws e (evs @ [ev], w'))"

text \<open>
  \<open>this.before?.()\<close>: a call of the function the field refers to, nothing when the field
  is \<open>undefined\<close>.
\<close>

fun call_optional :: "event \<Rightarrow> (fn \<Rightarrow> action) \<Rightarrow> fn option \<Rightarrow> run_state \<Rightarrow> run_state result" where
  "call_optional ev fns None s = Returns s"
| "call_optional ev fns (Some k) s = call ev (fns k) s"

text \<open>\<open>if (realPass) device.startPass(this)\<close>\<close>

definition call_if :: "bool \<Rightarrow> event \<Rightarrow> action \<Rightarrow> run_state \<Rightarrow> run_state result" where
  "call_if c ev f s = (if c then call ev f s else Returns s)"

text \<open>\<open>device.renderPassIndex++\<close>\<close>

definition inc_renderPassIndex :: action where
  "inc_renderPassIndex w =
     Returns (w\<lparr>w_device := (w_device w)\<lparr>renderPassIndex := renderPassIndex (w_device w) + 1\<rparr>\<rparr>)"

text \<open>The template literal \<open>`Pass:${this.name}`\<close>.\<close>

definition marker_name :: "RenderPass \<Rightarrow> string" where
  "marker_name p = ''Pass:'' @ (case name p of None \<Rightarrow> ''undefined'' | Some n \<Rightarrow> n)"

text \<open>
  \<open>render()\<close>. \<open>realPass\<close> and the marker's name are computed on entry; the function
  fields and \<open>device.renderPassIndex\<close> are read where the call is reached.
\<close>

definition render :: "Collaborators \<Rightarrow> world \<Rightarrow> run_state result" where
  "render env w =
     (let realPass = (renderTarget (w_pass w) \<noteq> Undefined) in
      andThen (call (PushGpuMarker (marker_name (w_pass w)))
                 (on_device (pushGpuMarker env (marker_name (w_pass w)))) ([], w)) (\<lambda>s.
      andThen (call DebugCall
                 (Debug_call (debug env)
                    (\<lambda>w. log_pass (Tracing_get env) (Debug_trace env)
                           (renderPassIndex (w_device w)) w)) s) (\<lambda>s.
      andThen (call_optional CallBefore (closures env) (before (w_callbacks (snd s))) s) (\<lambda>s.
      andThen (call_if realPass StartPass (startPass env) s) (\<lambda>s.
      andThen (call_optional CallExecute (closures env) (execute (w_callbacks (snd s))) s) (\<lambda>s.
      andThen (call_if realPass EndPass (endPass env) s) (\<lambda>s.
      andThen (call_optional CallAfter (closures env) (after (w_callbacks (snd s))) s) (\<lambda>s.
      andThen (call IncRenderPassIndex inc_renderPassIndex s) (\<lambda>s.
      call PopGpuMarker (on_device (popGpuMarker env)) s)))))))))"

subsection \<open>Notions used to state the properties\<close>

text \<open>The events recorded by a run, whether it returned or threw.\<close>

definition events_of :: "run_state result \<Rightarrow> event list" where
  "events_of res = fst (state_of res)"

text \<open>
  What the spec says of one step of \<open>render\<close>, as a relation between the world before
  and the world after the step: a function field is invoked if present, a function of
  the pass bracket if the pass is a real one; the step is the function's return, and
  nothing happens otherwise.
\<close>

fun invoked :: "(fn \<Rightarrow> action) \<Rightarrow> fn option \<Rightarrow> world \<Rightarrow> world \<Rightarrow> bool" where
  "invoked fns None w w' = (w' = w)"
| "invoked fns (Some k) w w' = (fns k w = Returns w')"

definition bracketed :: "bool \<Rightarrow> action \<Rightarrow> world \<Rightarrow> world \<Rightarrow> bool" where
  "bracketed realPass f w w' = (if realPass then f w = Returns w' else w' = w)"

definition opt_event :: "event \<Rightarrow> 'a option \<Rightarrow> event list" where
  "opt_event ev f = (case f of None \<Rightarrow> [] | Some _ \<Rightarrow> [ev])"

text \<open>
  The protocol of \<open>render\<close> as the spec lists it, for a run that returns with the events
  \<open>evs\<close> and the world \<open>w'\<close>: the marker is pushed on the device; the description is
  logged in a diagnostic build; \<open>before\<close> is invoked if present; the device begins the
  pass if \<open>renderTarget\<close> was not \<open>undefined\<close> on entry; \<open>execute\<close> is invoked if present;
  the device ends the pass under the same condition; \<open>after\<close> is invoked if present; the
  device's counter is incremented, once; the marker is popped. Each step starts from the
  world the step before it left.
\<close>

definition render_protocol :: "Collaborators \<Rightarrow> world \<Rightarrow> event list \<Rightarrow> world \<Rightarrow> bool" where
  "render_protocol env w evs w' =
     (\<exists>d1 w2 w3 w4 w5 w6 w7 d8.
        pushGpuMarker env (marker_name (w_pass w)) (w_device w) = Returns d1 \<and>
        (if debug env
         then log_pass (Tracing_get env) (Debug_trace env) (renderPassIndex d1)
                (w\<lparr>w_device := d1\<rparr>)
         else Returns (w\<lparr>w_device := d1\<rparr>)) = Returns w2 \<and>
        invoked (closures env) (before (w_callbacks w2)) w2 w3 \<and>
        bracketed (renderTarget (w_pass w) \<noteq> Undefined) (startPass env) w3 w4 \<and>
        invoked (closures env) (execute (w_callbacks w4)) w4 w5 \<and>
        bracketed (renderTarget (w_pass w) \<noteq> Undefined) (endPass env) w5 w6 \<and>
        invoked (closures env) (after (w_callbacks w6)) w6 w7 \<and>
        popGpuMarker env ((w_device w7)\<lparr>renderPassIndex := renderPassIndex (w_device w7) + 1\<rparr>)
          = Returns d8 \<and>
        evs = [PushGpuMarker (marker_name (w_pass w)), DebugCall]
              @ opt_event CallBefore (before (w_callbacks w2))
              @ (if renderTarget (w_pass w) \<noteq> Undefined then [StartPass] else [])
              @ opt_event CallExecute (execute (w_callbacks w4))
              @ (if renderTarget (w_pass w) \<noteq> Undefined then [EndPass] else [])
              @ opt_event CallAfter (after (w_callbacks w6))
              @ [IncRenderPassIndex, PopGpuMarker] \<and>
        w' = w7\<lparr>w_device := d8\<rparr>)"

text \<open>
  The same protocol for every run, one that throws included: the steps in the order of
  the spec, each with the function it is to call in the world it finds, if any. A step
  with a function records its event and calls it, and the run ends where a call throws.
\<close>

type_synonym step = "event \<times> (world \<Rightarrow> action option)"

fun performs :: "step list \<Rightarrow> run_state \<Rightarrow> run_state result" where
  "performs [] s = Returns s"
| "performs ((ev, chosen) # steps) (evs, w) =
     (case chosen w of
        None \<Rightarrow> performs steps (evs, w)
      | Some f \<Rightarrow>
          (case f w of
             Returns w' \<Rightarrow> performs steps (evs @ [ev], w')
           | Throws e w' \<Rightarrow> Throws e (evs @ [ev], w')))"

definition render_steps :: "Collaborators \<Rightarrow> world \<Rightarrow> step list" where
  "render_steps env w0 =
     [(PushGpuMarker (marker_name (w_pass w0)),
         \<lambda>w. Some (\<lambda>w. map_result (\<lambda>d. w\<lparr>w_device := d\<rparr>)
                           (pushGpuMarker env (marker_name (w_pass w0)) (w_device w)))),
      (DebugCall,
         \<lambda>w. Some (\<lambda>w. if debug env
                         then log_pass (Tracing_get env) (Debug_trace env)
                                (renderPassIndex (w_device w)) w
                         else Returns w)),
      (CallBefore, \<lambda>w. map_option (closures env) (before (w_callbacks w))),
      (StartPass, \<lambda>w. if renderTarget (w_pass w0) \<noteq> Undefined then Some (startPass env) else None),
      (CallExecute, \<lambda>w. map_option (closures env) (execute (w_callbacks w))),
      (EndPass, \<lambda>w. if renderTarget (w_pass w0) \<noteq> Undefined then Some (endPass env) else None),
      (CallAfter, \<lambda>w. map_option (closures env) (after (w_callbacks w))),
      (IncRenderPassIndex,
         \<lambda>w. Some (\<lambda>w. Returns (w\<lparr>w_device :=
                           (w_device w)\<lparr>renderPassIndex := renderPassIndex (w_device w) + 1\<rparr>\<rparr>))),
      (PopGpuMarker,
         \<lambda>w. Some (\<lambda>w. map_result (\<lambda>d. w\<lparr>w_device := d\<rparr>) (popGpuMarker env (w_device w))))]"

text \<open>The calls of \<open>render\<close> in their fixed order, every one of them made.\<close>

definition full_order :: "string \<Rightarrow> event list" where
  "full_order marker =
     [PushGpuMarker marker, DebugCall, CallBefore, StartPass, CallExecute, EndPass, CallAfter,
      IncRenderPassIndex, PopGpuMarker]"

text \<open>
  A function that returns on every state, and one that leaves an observation of the
  state alone, whether it returns or throws.
\<close>

definition always_returns :: "('s \<Rightarrow> 's result) \<Rightarrow> bool" where
  "always_returns f = (\<forall>s. returned (f s))"

definition preserves :: "('s \<Rightarrow> 'a) \<Rightarrow> ('s \<Rightarrow> 's result) \<Rightarrow> bool" where
  "preserves obs f = (\<forall>s. obs (state_of (f s)) = obs s)"

text \<open>
  The same of the functions that \<open>render\<close> is given: those it can call whatever the pass
  is, and the two of the device's pass bracket.
\<close>

definition functions_return :: "Collaborators \<Rightarrow> bool" where
  "functions_return env =
     ((\<forall>k. always_returns (closures env k)) \<and>
      (\<forall>marker. always_returns (pushGpuMarker env marker)) \<and>
      always_returns (popGpuMarker env) \<and>
      (\<forall>channel line. Debug_trace env channel line = None))"

definition bracket_returns :: "Collaborators \<Rightarrow> bool" where
  "bracket_returns env = (always_returns (startPass env) \<and> always_returns (endPass env))"

definition functions_preserve :: "(world \<Rightarrow> 'a) \<Rightarrow> Collaborators \<Rightarrow> bool" where
  "functions_preserve obs env = (\<forall>k. preserves obs (closures env k))"

definition bracket_preserves :: "(world \<Rightarrow> 'a) \<Rightarrow> Collaborators \<Rightarrow> bool" where
  "bracket_preserves obs env = (preserves obs (startPass env) \<and> preserves obs (endPass env))"

definition markers_preserve :: "(GraphicsDevice \<Rightarrow> 'a) \<Rightarrow> Collaborators \<Rightarrow> bool" where
  "markers_preserve obs env =
     ((\<forall>marker. preserves obs (pushGpuMarker env marker)) \<and> preserves obs (popGpuMarker env))"

text \<open>The condition of \<open>log\<close>: a diagnostic build with one of the two channels on.\<close>

definition tracing :: "Collaborators \<Rightarrow> bool" where
  "tracing env =
     (debug env \<and> (Tracing_get env TRACEID_RENDER_PASS \<or> Tracing_get env TRACEID_RENDER_PASS_DETAIL))"

text \<open>
  A sequence of stages in list form, to reason about \<open>render\<close> by induction: the stages run
  in turn until one throws. A stage emits an event when it records that event or none.
\<close>

type_synonym stage = "run_state \<Rightarrow> run_state result"

fun run_stages :: "stage list \<Rightarrow> stage" where
  "run_stages [] s = Returns s"
| "run_stages (f # fs) s = andThen (f s) (run_stages fs)"

definition emits :: "event \<Rightarrow> stage \<Rightarrow> bool" where
  "emits ev f = (\<forall>s. events_of (f s) = fst s \<or> events_of (f s) = fst s @ [ev])"

definition later_stages :: "Collaborators \<Rightarrow> bool \<Rightarrow> stage list" where
  "later_stages env realPass =
     [(\<lambda>s. call_optional CallBefore (closures env) (before (w_callbacks (snd s))) s),
      call_if realPass StartPass (startPass env),
      (\<lambda>s. call_optional CallExecute (closures env) (execute (w_callbacks (snd s))) s),
      call_if realPass EndPass (endPass env),
      (\<lambda>s. call_optional CallAfter (closures env) (after (w_callbacks (snd s))) s),
      call IncRenderPassIndex inc_renderPassIndex,
      call PopGpuMarker (on_device (popGpuMarker env))]"

definition render_stages :: "Collaborators \<Rightarrow> bool \<Rightarrow> string \<Rightarrow> stage list" where
  "render_stages env realPass marker =
     call (PushGpuMarker marker) (on_device (pushGpuMarker env marker))
     # call DebugCall
         (Debug_call (debug env)
            (\<lambda>w. log_pass (Tracing_get env) (Debug_trace env) (renderPassIndex (w_device w)) w))
     # later_stages env realPass"

text \<open>
  For \<open>init\<close>: the number of objects a call allocates (none when \<open>numColorOps\<close> is
  \<open>undefined\<close>), and the object that an iteration of the loop leaves at index \<open>i\<close>.
\<close>

definition num_allocated :: "RenderTarget js_ref \<Rightarrow> nat" where
  "num_allocated rt = (case numColorOps rt of None \<Rightarrow> 0 | Some k \<Rightarrow> k)"

definition allocated_ops :: "int \<Rightarrow> RenderTarget js_ref \<Rightarrow> nat \<Rightarrow> ColorAttachmentOps" where
  "allocated_ops smp rt i =
     mipmaps_rule (case colorBuffer_mipmaps rt i of Inl _ \<Rightarrow> False | Inr m \<Rightarrow> m)
       (single_sample_rule smp new_ColorAttachmentOps)"

text \<open>For \<open>setClearColor\<close>: what the loop body does to one entry.\<close>

definition cleared :: "Color \<Rightarrow> ColorAttachmentOps \<Rightarrow> ColorAttachmentOps" where
  "cleared color c = c\<lparr>clearValue := copy (clearValue c) color, clear := True\<rparr>"

text \<open>
  A pass as the constructor and the methods above leave it: color attachment operations
  exist only once \<open>init\<close> has allocated the depth and stencil operations.
\<close>

definition constructed :: "RenderPass \<Rightarrow> bool" where
  "constructed p = (depthStencilOps p = None \<longrightarrow> colorArrayOps p = [])"

text \<open>
  The color buffers of the target reach index \<open>k\<close>, so that the loop can read
  \<open>mipmaps\<close> at every index below \<open>k\<close>.
\<close>

definition buffers_cover :: "RenderTarget js_ref \<Rightarrow> nat \<Rightarrow> bool" where
  "buffers_cover rt k = (case rt of Obj t \<Rightarrow> (case rt_colorBuffers t of None \<Rightarrow> True | Some bufs \<Rightarrow> k \<le> length bufs) | _ \<Rightarrow> True)"

text \<open>The pass that \<open>init\<close> leaves behind, in closed form (lemma \<open>init_eq\<close>).\<close>

definition after_init :: "GraphicsDevice \<Rightarrow> RenderTarget js_ref \<Rightarrow> RenderPass \<Rightarrow> RenderPass" where
  "after_init device rt p =
     p\<lparr>renderTarget := or_null rt,
       samples := max (case rt of Obj t \<Rightarrow> rt_samples t | _ \<Rightarrow> dev_samples device) 1,
       depthStencilOps := Some new_DepthStencilAttachmentOps,
       colorArrayOps :=
         map (allocated_ops (max (case rt of Obj t \<Rightarrow> rt_samples t | _ \<Rightarrow> dev_samples device) 1)
                (or_null rt)) [0..<num_allocated rt]
         @ drop (num_allocated rt) (colorArrayOps p)\<rparr>"

subsection \<open>Example values\<close>

definition example_device :: GraphicsDevice where
  "example_device = \<lparr>dev_samples = 1, renderPassIndex = 0, backBuffer = Null\<rparr>"

definition msaa_target :: RenderTarget where
  "msaa_target =
     \<lparr>rt_samples = 4, rt_colorBuffers = Some [\<lparr>tex_mipmaps = False\<rparr>, \<lparr>tex_mipmaps = True\<rparr>]\<rparr>"

definition depth_only_target :: RenderTarget where
  "depth_only_target = \<lparr>rt_samples = 1, rt_colorBuffers = None\<rparr>"

definition red :: Color where
  "red = \<lparr>r = 1, g = 0, b = 0, a = 1\<rparr>"

definition blue :: Color where
  "blue = \<lparr>r = 0, g = 0, b = 1, a = 1\<rparr>"

text \<open>
  A function that leaves its mark: it appends a character to the name of the pass.
\<close>

definition mark :: "char \<Rightarrow> action" where
  "mark c w =
     Returns (w\<lparr>w_pass := (w_pass w)\<lparr>name :=
        Some ((case name (w_pass w) of None \<Rightarrow> [] | Some n \<Rightarrow> n) @ [c])\<rparr>\<rparr>)"

text \<open>
  Collaborators of a build without diagnostics: function 1 marks \<open>b\<close>, function 2 marks
  \<open>x\<close>, function 3 marks \<open>a\<close>, function 4 makes function 2 the \<open>execute\<close> of the pass and
  every other function does nothing; \<open>startPass\<close> marks \<open>S\<close> and \<open>endPass\<close> marks \<open>E\<close>.
\<close>

definition marking_collaborators :: Collaborators where
  "marking_collaborators =
     \<lparr>closures = (\<lambda>k. if k = 1 then mark CHR ''b'' else if k = 2 then mark CHR ''x''
                      else if k = 3 then mark CHR ''a''
                      else if k = 4 then (\<lambda>w. Returns (w\<lparr>w_callbacks :=
                                            (w_callbacks w)\<lparr>execute := Some 2\<rparr>\<rparr>))
                      else Returns),
      startPass = mark CHR ''S'', endPass = mark CHR ''E'',
      pushGpuMarker = (\<lambda>marker. Returns), popGpuMarker = Returns,
      debug = False, Tracing_get = (\<lambda>channel. False),
      Debug_trace = (\<lambda>channel line. None)\<rparr>"

text \<open>
  The same in a diagnostic build with the render pass channel on, and with a pass bracket
  that faults when called.
\<close>

definition tracing_collaborators :: Collaborators where
  "tracing_collaborators =
     marking_collaborators
       \<lparr>debug := True, Tracing_get := (\<lambda>channel. channel = TRACEID_RENDER_PASS)\<rparr>"

definition faulty_bracket :: Collaborators where
  "faulty_bracket =
     tracing_collaborators\<lparr>startPass := Throws TypeError, endPass := Throws TypeError\<rparr>"

text \<open>
  The world of a pass as constructed, given its name and its function fields, and of the
  same pass initialised for the default framebuffer.
\<close>

definition new_world :: "string option \<Rightarrow> Callbacks \<Rightarrow> world" where
  "new_world nm cbs =
     \<lparr>w_pass = new_RenderPass\<lparr>name := nm\<rparr>, w_callbacks = cbs, w_device = example_device\<rparr>"

definition initialised_world :: "string option \<Rightarrow> Callbacks \<Rightarrow> world" where
  "initialised_world nm cbs =
     \<lparr>w_pass = state_of (init example_device Null (new_RenderPass\<lparr>name := nm\<rparr>)),
      w_callbacks = cbs, w_device = example_device\<rparr>"

section \<open>Properties\<close>

subsection \<open>The loops in closed form\<close>

declare init_loop.simps [simp del] setClearColor_loop.simps [simp del]

lemma copy_eq: "copy dst src = src"
  by (simp add: copy_def)

lemma init_loop_index:
  "i \<le> length arr \<Longrightarrow> Suc i \<le> length (array_set arr i v)"
  by (simp add: array_set_def)

lemma array_set_take:
  "i \<le> length arr \<Longrightarrow> take (Suc i) (array_set arr i v) = take i arr @ [v]"
  by (auto simp: array_set_def take_Suc_conv_app_nth)

lemma array_set_drop:
  "i < k \<Longrightarrow> i \<le> length arr \<Longrightarrow> drop k (array_set arr i v) = drop k arr"
  by (auto simp: array_set_def)

lemma colorBuffer_mipmaps_in_range:
  "buffers_cover rt k \<Longrightarrow> i < k \<Longrightarrow> \<exists>m. colorBuffer_mipmaps rt i = Inr m"
  by (cases rt) (auto simp: buffers_cover_def split: option.splits)

lemma init_loop_Some:
  "buffers_cover rt k \<Longrightarrow> i \<le> k \<Longrightarrow> i \<le> length arr \<Longrightarrow>
   init_loop smp rt (Some k) i arr =
     Returns (take i arr @ map (allocated_ops smp rt) [i..<k] @ drop k arr)"
proof (induction smp rt "Some k" i arr rule: init_loop.induct)
  case (1 smp rt i arr)
  show ?case
  proof (cases "i < k")
    case False
    with 1 have "i = k" by simp
    then show ?thesis by (simp add: init_loop.simps [of smp rt "Some k" k arr])
  next
    case True
    then obtain m where m: "colorBuffer_mipmaps rt i = Inr m"
      using colorBuffer_mipmaps_in_range 1 by blast
    let ?v = "mipmaps_rule m (single_sample_rule smp new_ColorAttachmentOps)"
    have v: "?v = allocated_ops smp rt i" by (simp add: allocated_ops_def m)
    have "init_loop smp rt (Some k) i arr = init_loop smp rt (Some k) (Suc i) (array_set arr i ?v)"
      using True m by (subst init_loop.simps) (simp add: Let_def)
    also have "\<dots> = Returns (take (Suc i) (array_set arr i ?v) @ map (allocated_ops smp rt) [Suc i..<k]
                 @ drop k (array_set arr i ?v))"
      using 1 True m by (intro "1.hyps") (auto simp: array_set_def)
    also have "\<dots> = Returns (take i arr @ map (allocated_ops smp rt) [i..<k] @ drop k arr)"
      using 1 True by (simp add: array_set_take array_set_drop v upt_conv_Cons)
    finally show ?thesis .
  qed
qed

lemma init_loop_None: "init_loop smp rt None i arr = Returns arr"
  by (subst init_loop.simps) simp

lemma buffers_cover_numColorOps:
  "numColorOps rt = Some k \<Longrightarrow> buffers_cover (or_null rt) k"
  by (cases rt) (auto simp: buffers_cover_def)

lemma init_eq: "init device rt p = Returns (after_init device rt p)"
proof (cases "numColorOps rt")
  case None
  then show ?thesis
    by (cases rt) (simp_all add: init_def after_init_def num_allocated_def init_loop_None)
next
  case (Some k)
  have loop: "init_loop smp (or_null rt) (Some k) 0 arr =
          Returns (map (allocated_ops smp (or_null rt)) [0..<k] @ drop k arr)" for smp arr
    using init_loop_Some [OF buffers_cover_numColorOps [OF Some], of 0 arr smp] by simp
  have n: "num_allocated rt = k"
    by (simp add: num_allocated_def Some)
  show ?thesis
    using loop unfolding init_def after_init_def n Some
    by (cases rt) (simp_all add: Let_def)
qed

lemma allocated_ops_store:
  "store (allocated_ops smp rt i) = (smp = 1)" "resolve (allocated_ops smp rt i) = (smp \<noteq> 1)"
  by (simp_all add: allocated_ops_def mipmaps_rule_def single_sample_rule_def
        new_ColorAttachmentOps_def)

lemma setClearColor_loop_eq:
  "count = length arr \<Longrightarrow> i \<le> count \<Longrightarrow>
   setClearColor_loop color count i arr =
     Returns (take i arr @ map (cleared color) (drop i arr))"
proof (induction color count i arr rule: setClearColor_loop.induct)
  case (1 color count i arr)
  show ?case
  proof (cases "i < count")
    case False
    with 1 show ?thesis by (subst setClearColor_loop.simps) simp
  next
    case True
    let ?arr = "arr[i := cleared color (arr ! i)]"
    have "setClearColor_loop color count i arr = setClearColor_loop color count (Suc i) ?arr"
      using True "1.prems" by (subst setClearColor_loop.simps) (simp add: Let_def cleared_def)
    also have "\<dots> = Returns (take (Suc i) ?arr @ map (cleared color) (drop (Suc i) ?arr))"
      using True "1.prems" by (intro "1.IH") (simp_all add: cleared_def)
    also have "\<dots> = Returns (take i arr @ map (cleared color) (drop i arr))"
      using True "1.prems" by (simp add: take_Suc_conv_app_nth Cons_nth_drop_Suc [symmetric])
    finally show ?thesis .
  qed
qed

lemma setClearColor_eq:
  "setClearColor color p = Returns (p\<lparr>colorArrayOps := map (cleared color) (colorArrayOps p)\<rparr>)"
  by (simp add: setClearColor_def setClearColor_loop_eq)

lemma cleared_fields:
  "clear (cleared color c) = True" "clearValue (cleared color c) = color"
  "store (cleared color c) = store c" "resolve (cleared color c) = resolve c"
  "mipmaps (cleared color c) = mipmaps c"
  by (simp_all add: cleared_def copy_eq)

lemma cleared_cleared: "cleared color (cleared color c) = cleared color c"
  by (simp add: cleared_def copy_eq)

lemma after_init_length:
  "length (colorArrayOps (after_init device rt p)) = max (length (colorArrayOps p)) (num_allocated rt)"
  by (simp add: after_init_def)

lemma after_init_nth:
  "i < num_allocated rt \<Longrightarrow>
   colorArrayOps (after_init device rt p) ! i = allocated_ops (samples (after_init device rt p)) (or_null rt) i"
  by (simp add: after_init_def nth_append)

lemma after_init_drop:
  "drop (num_allocated rt) (colorArrayOps (after_init device rt p)) = drop (num_allocated rt) (colorArrayOps p)"
  by (simp add: after_init_def)

lemma after_init_samples:
  "samples (after_init device rt p) = max (case rt of Obj t \<Rightarrow> rt_samples t | _ \<Rightarrow> dev_samples device) 1"
  by (simp add: after_init_def)

subsection \<open>init\<close>

text \<open>
  C1, as the code has it: \<open>init\<close> returns, and each of the \<open>numColorOps\<close> entries that the
  call allocated (the indices below \<open>numColorOps\<close>) follows the single-sample rule: when
  the computed \<open>samples\<close> is 1 the entry has \<open>store\<close> true and \<open>resolve\<close> false; when it is
  greater than 1 the entry's \<open>resolve\<close> and \<open>store\<close> are those of a new
  \<open>ColorAttachmentOps\<close>, true and false. These are all the entries of \<open>colorArrayOps\<close>
  when the array was empty before the call.
\<close>

theorem init_single_sample_rule:
  "\<exists>p'. init device rt p = Returns p' \<and>
     num_allocated rt \<le> length (colorArrayOps p') \<and>
     (\<forall>i < num_allocated rt.
        (samples p' = 1 \<longrightarrow> store (colorArrayOps p' ! i) \<and> \<not> resolve (colorArrayOps p' ! i)) \<and>
        (1 < samples p' \<longrightarrow>
           resolve (colorArrayOps p' ! i) = resolve new_ColorAttachmentOps \<and>
           resolve (colorArrayOps p' ! i) \<and>
           store (colorArrayOps p' ! i) = store new_ColorAttachmentOps)) \<and>
     (colorArrayOps p = [] \<longrightarrow> length (colorArrayOps p') = num_allocated rt)"
proof -
  let ?p' = "after_init device rt p"
  have "store (colorArrayOps ?p' ! i) = (samples ?p' = 1)"
       "resolve (colorArrayOps ?p' ! i) = (samples ?p' \<noteq> 1)" if "i < num_allocated rt" for i
    using that by (simp_all add: after_init_nth allocated_ops_store)
  moreover have "resolve new_ColorAttachmentOps" "\<not> store new_ColorAttachmentOps"
    by (simp_all add: new_ColorAttachmentOps_def)
  moreover have "length (colorArrayOps ?p') = max (length (colorArrayOps p)) (num_allocated rt)"
    by (rule after_init_length)
  ultimately show ?thesis
    by (intro exI [of _ ?p']) (auto simp: init_eq)
qed

theorem init_single_sample_rule_witness:
  "(0::nat) < num_allocated Null \<and> (0::nat) < num_allocated (Obj msaa_target) \<and>
   colorArrayOps new_RenderPass = [] \<and>
   samples (state_of (init example_device Null new_RenderPass)) = 1 \<and>
   map store (colorArrayOps (state_of (init example_device Null new_RenderPass))) = [True] \<and>
   map resolve (colorArrayOps (state_of (init example_device Null new_RenderPass))) = [False] \<and>
   1 < samples (state_of (init example_device (Obj msaa_target) new_RenderPass)) \<and>
   map store (colorArrayOps (state_of (init example_device (Obj msaa_target) new_RenderPass)))
     = [False, False] \<and>
   map resolve (colorArrayOps (state_of (init example_device (Obj msaa_target) new_RenderPass)))
     = [True, True]"
  using init_single_sample_rule [of example_device Null new_RenderPass]
    init_single_sample_rule [of example_device "Obj msaa_target" new_RenderPass]
  by (simp add: init_eq after_init_def num_allocated_def example_device_def msaa_target_def
        new_RenderPass_def allocated_ops_def mipmaps_rule_def single_sample_rule_def
        new_ColorAttachmentOps_def upt_rec)

text \<open>
  C1 as stated speaks of every entry of \<open>colorArrayOps\<close>. A pass initialised with the
  two-buffer multisampled target and then with the default framebuffer of a
  single-sampled device has \<open>samples\<close> 1 and two entries, the second of which is the
  one of the first call: not stored, to be resolved.
\<close>

theorem init_stale_entry_counterexample:
  "samples (state_of (init example_device Null
      (state_of (init example_device (Obj msaa_target) new_RenderPass)))) = 1 \<and>
   length (colorArrayOps (state_of (init example_device Null
      (state_of (init example_device (Obj msaa_target) new_RenderPass))))) = 2 \<and>
   \<not> store (colorArrayOps (state_of (init example_device Null
      (state_of (init example_device (Obj msaa_target) new_RenderPass)))) ! 1) \<and>
   resolve (colorArrayOps (state_of (init example_device Null
      (state_of (init example_device (Obj msaa_target) new_RenderPass)))) ! 1)"
  by (simp add: init_eq after_init_def num_allocated_def example_device_def msaa_target_def
        new_RenderPass_def allocated_ops_def mipmaps_rule_def single_sample_rule_def
        new_ColorAttachmentOps_def upt_rec)

text \<open>
  C5: after \<open>init\<close>, \<open>samples\<close> is the maximum of 1 and the target's sample count, or the
  device's when no target was supplied; it is at least 1 and so never zero.
\<close>

theorem init_samples:
  "\<exists>p'. init device rt p = Returns p' \<and>
     samples p' = max (case rt of Obj t \<Rightarrow> rt_samples t | _ \<Rightarrow> dev_samples device) 1 \<and>
     1 \<le> samples p' \<and> samples p' \<noteq> 0"
  by (simp add: init_eq after_init_samples)

text \<open>
  C6: on a freshly constructed pass, \<open>init(null)\<close> and \<open>init()\<close> return with exactly one
  entry in \<open>colorArrayOps\<close>, a new \<open>DepthStencilAttachmentOps\<close>, and \<open>renderTarget\<close> set to
  \<open>null\<close>.
\<close>

theorem init_default_framebuffer:
  "(\<exists>p'. init device Null new_RenderPass = Returns p' \<and>
      length (colorArrayOps p') = 1 \<and>
      depthStencilOps p' = Some new_DepthStencilAttachmentOps \<and>
      renderTarget p' = Null) \<and>
   (\<exists>p'. init device Undefined new_RenderPass = Returns p' \<and>
      length (colorArrayOps p') = 1 \<and>
      depthStencilOps p' = Some new_DepthStencilAttachmentOps \<and>
      renderTarget p' = Null)"
  by (simp add: init_eq after_init_def num_allocated_def new_RenderPass_def)

text \<open>
  C7: with a target that has no \<open>_colorBuffers\<close>, \<open>init\<close> returns without allocating any
  \<open>ColorAttachmentOps\<close>: \<open>colorArrayOps\<close> is what it was, empty on a new pass, and the
  \<open>DepthStencilAttachmentOps\<close> is allocated all the same.
\<close>

theorem init_without_colorBuffers:
  assumes "rt_colorBuffers t = None"
  shows "\<exists>p'. init device (Obj t) p = Returns p' \<and>
           colorArrayOps p' = colorArrayOps p \<and>
           (p = new_RenderPass \<longrightarrow> colorArrayOps p' = []) \<and>
           depthStencilOps p' = Some new_DepthStencilAttachmentOps \<and>
           renderTarget p' = Obj t"
  using assms by (simp add: init_eq after_init_def num_allocated_def new_RenderPass_def)

theorem init_without_colorBuffers_witness:
  "rt_colorBuffers depth_only_target = None \<and>
   returned (init example_device (Obj depth_only_target) new_RenderPass) \<and>
   colorArrayOps (state_of (init example_device (Obj depth_only_target) new_RenderPass)) = [] \<and>
   depthStencilOps (state_of (init example_device (Obj depth_only_target) new_RenderPass))
     = Some new_DepthStencilAttachmentOps"
  using init_without_colorBuffers [of depth_only_target example_device new_RenderPass]
  by (auto simp: depth_only_target_def new_RenderPass_def)

text \<open>
  C10: \<open>init\<close> never shortens \<open>colorArrayOps\<close>. It writes the indices below \<open>numColorOps\<close>
  only: the entries from there on are those the array had before the call, so that a
  second \<open>init\<close> with fewer color buffers keeps the entries of the first beyond its count.
\<close>

theorem init_never_shrinks:
  "\<exists>p'. init device rt p = Returns p' \<and>
     length (colorArrayOps p) \<le> length (colorArrayOps p') \<and>
     length (colorArrayOps p') = max (length (colorArrayOps p)) (num_allocated rt) \<and>
     drop (num_allocated rt) (colorArrayOps p') = drop (num_allocated rt) (colorArrayOps p)"
  by (simp add: init_eq after_init_length after_init_drop)


subsection \<open>The clear declarations\<close>

text \<open>
  The constructor, \<open>init\<close> and the three mutators yield constructed passes only.
\<close>

lemma constructed_new: "constructed new_RenderPass"
  by (simp add: constructed_def new_RenderPass_def)

lemma constructed_init: "constructed (state_of (init device rt p))"
  by (simp add: constructed_def init_eq after_init_def)

lemma constructed_setClearColor:
  "constructed p \<Longrightarrow> constructed (state_of (setClearColor color p))"
  by (simp add: constructed_def setClearColor_eq)

lemma constructed_setClearDepth:
  "constructed p \<Longrightarrow> constructed (state_of (setClearDepth v p))"
  by (simp add: constructed_def setClearDepth_def split: option.splits)

lemma constructed_setClearStencil:
  "constructed p \<Longrightarrow> constructed (state_of (setClearStencil v p))"
  by (simp add: constructed_def setClearStencil_def split: option.splits)

text \<open>
  C4: \<open>setClearColor(C)\<close> returns with as many entries as before, each with \<open>clear\<close> true
  and \<open>clearValue\<close> equal to \<open>C\<close>; a second call with another color leaves every entry
  with that color.
\<close>

theorem setClearColor_all_entries:
  "\<exists>p'. setClearColor color p = Returns p' \<and>
     length (colorArrayOps p') = length (colorArrayOps p) \<and>
     (\<forall>c \<in> set (colorArrayOps p'). clear c \<and> clearValue c = color) \<and>
     (\<exists>p''. setClearColor color' p' = Returns p'' \<and>
        length (colorArrayOps p'') = length (colorArrayOps p) \<and>
        (\<forall>c \<in> set (colorArrayOps p''). clear c \<and> clearValue c = color'))"
  by (simp add: setClearColor_eq cleared_fields)

theorem setClearColor_all_entries_witness:
  "length (colorArrayOps (state_of (init example_device (Obj msaa_target) new_RenderPass))) = 2 \<and>
   map clear (colorArrayOps (state_of (setClearColor red
      (state_of (init example_device (Obj msaa_target) new_RenderPass))))) = [True, True] \<and>
   map clearValue (colorArrayOps (state_of (setClearColor red
      (state_of (init example_device (Obj msaa_target) new_RenderPass))))) = [red, red] \<and>
   map clearValue (colorArrayOps (state_of (setClearColor blue (state_of (setClearColor red
      (state_of (init example_device (Obj msaa_target) new_RenderPass))))))) = [blue, blue]"
  using setClearColor_all_entries
    [of red "state_of (init example_device (Obj msaa_target) new_RenderPass)" blue]
  by (simp add: init_eq after_init_def num_allocated_def msaa_target_def new_RenderPass_def
        setClearColor_eq cleared_fields upt_rec)

text \<open>
  C8: on an initialised pass, \<open>setClearDepth(v)\<close> returns having changed
  \<open>clearDepthValue\<close> and \<open>clearDepth\<close> of \<open>depthStencilOps\<close> and nothing else, and
  \<open>setClearStencil(v)\<close> having changed \<open>clearStencilValue\<close> and \<open>clearStencil\<close> and nothing
  else: the other four fields of \<open>depthStencilOps\<close>, \<open>colorArrayOps\<close> and the other fields
  of the pass are as before.
\<close>

theorem setClearDepth_setClearStencil_frame:
  assumes "depthStencilOps p = Some d"
  shows "(\<exists>p' d'. setClearDepth depthValue p = Returns p' \<and> depthStencilOps p' = Some d' \<and>
            clearDepthValue d' = depthValue \<and> clearDepth d' \<and>
            clearStencilValue d' = clearStencilValue d \<and> clearStencil d' = clearStencil d \<and>
            storeDepth d' = storeDepth d \<and> storeStencil d' = storeStencil d \<and>
            colorArrayOps p' = colorArrayOps p \<and> name p' = name p \<and>
            renderTarget p' = renderTarget p \<and> samples p' = samples p \<and>
            requiresCubemaps p' = requiresCubemaps p \<and>
            fullSizeClearRect p' = fullSizeClearRect p) \<and>
         (\<exists>p' d'. setClearStencil stencilValue p = Returns p' \<and> depthStencilOps p' = Some d' \<and>
            clearStencilValue d' = stencilValue \<and> clearStencil d' \<and>
            clearDepthValue d' = clearDepthValue d \<and> clearDepth d' = clearDepth d \<and>
            storeDepth d' = storeDepth d \<and> storeStencil d' = storeStencil d \<and>
            colorArrayOps p' = colorArrayOps p \<and> name p' = name p \<and>
            renderTarget p' = renderTarget p \<and> samples p' = samples p \<and>
            requiresCubemaps p' = requiresCubemaps p \<and>
            fullSizeClearRect p' = fullSizeClearRect p)"
  using assms by (simp add: setClearDepth_def setClearStencil_def)

theorem setClearDepth_setClearStencil_frame_witness:
  "depthStencilOps (state_of (init example_device (Obj depth_only_target) new_RenderPass))
     = Some new_DepthStencilAttachmentOps \<and>
   returned (setClearDepth 0.5
      (state_of (init example_device (Obj depth_only_target) new_RenderPass))) \<and>
   map_option clearDepthValue (depthStencilOps (state_of (setClearDepth 0.5
      (state_of (init example_device (Obj depth_only_target) new_RenderPass))))) = Some 0.5 \<and>
   map_option clearDepth (depthStencilOps (state_of (setClearDepth 0.5
      (state_of (init example_device (Obj depth_only_target) new_RenderPass))))) = Some True \<and>
   map_option clearStencil (depthStencilOps (state_of (setClearDepth 0.5
      (state_of (init example_device (Obj depth_only_target) new_RenderPass))))) = Some False \<and>
   map_option clearStencilValue (depthStencilOps (state_of (setClearStencil 7
      (state_of (init example_device (Obj depth_only_target) new_RenderPass))))) = Some 7 \<and>
   map_option clearDepth (depthStencilOps (state_of (setClearStencil 7
      (state_of (init example_device (Obj depth_only_target) new_RenderPass))))) = Some False"
  using setClearDepth_setClearStencil_frame
    [of "state_of (init example_device (Obj depth_only_target) new_RenderPass)"
        new_DepthStencilAttachmentOps "0.5" 7]
  by (auto simp: init_eq after_init_def new_DepthStencilAttachmentOps_def)

text \<open>
  C9: each of \<open>setClearColor\<close>, \<open>setClearDepth\<close> and \<open>setClearStencil\<close>, called twice with
  the same argument, leaves what one call leaves; \<open>setClearDepth\<close> and \<open>setClearStencil\<close>
  can be called in either order with the same outcome, and on a constructed pass so can
  \<open>setClearColor\<close> and either of them. The outcome of two calls in a row is that of
  the first when it throws.
\<close>

theorem setClear_idempotent_commutative:
  "andThen (setClearColor color p) (setClearColor color) = setClearColor color p \<and>
   andThen (setClearDepth depthValue p) (setClearDepth depthValue) = setClearDepth depthValue p \<and>
   andThen (setClearStencil stencilValue p) (setClearStencil stencilValue)
     = setClearStencil stencilValue p \<and>
   andThen (setClearDepth depthValue p) (setClearStencil stencilValue)
     = andThen (setClearStencil stencilValue p) (setClearDepth depthValue) \<and>
   (constructed p \<longrightarrow>
      andThen (setClearColor color p) (setClearDepth depthValue)
        = andThen (setClearDepth depthValue p) (setClearColor color) \<and>
      andThen (setClearColor color p) (setClearStencil stencilValue)
        = andThen (setClearStencil stencilValue p) (setClearColor color))"
proof (cases "depthStencilOps p")
  case None
  then have "constructed p \<Longrightarrow> colorArrayOps p = []"
    by (simp add: constructed_def)
  with None show ?thesis
    by (auto simp: setClearColor_eq setClearDepth_def setClearStencil_def cleared_cleared)
next
  case (Some d)
  then show ?thesis
    by (simp add: setClearColor_eq setClearDepth_def setClearStencil_def cleared_cleared)
qed

theorem setClear_idempotent_commutative_witness:
  "constructed (state_of (init example_device (Obj msaa_target) new_RenderPass)) \<and>
   returned (andThen (setClearColor red
      (state_of (init example_device (Obj msaa_target) new_RenderPass))) (setClearDepth 0.5)) \<and>
   andThen (setClearColor red (state_of (init example_device (Obj msaa_target) new_RenderPass)))
     (setClearDepth 0.5)
   = andThen (setClearDepth 0.5 (state_of (init example_device (Obj msaa_target) new_RenderPass)))
     (setClearColor red) \<and>
   andThen (setClearColor red (state_of (init example_device (Obj msaa_target) new_RenderPass)))
     (setClearColor red)
   = setClearColor red (state_of (init example_device (Obj msaa_target) new_RenderPass))"
  using setClear_idempotent_commutative
    [where p = "state_of (init example_device (Obj msaa_target) new_RenderPass)"
       and color = red and depthValue = "0.5" and stencilValue = 0]
  by (simp add: constructed_init) (simp add: init_eq after_init_def setClearColor_eq setClearDepth_def)


subsection \<open>render\<close>

declare log_colors.simps [simp del] nat_digits.simps [simp del]

lemma events_of_simps [simp]:
  "events_of (Returns (evs, w)) = evs" "events_of (Throws e (evs, w)) = evs"
  by (simp_all add: events_of_def)

lemma andThen_Returns_iff:
  "andThen m f = Returns t \<longleftrightarrow> (\<exists>s. m = Returns s \<and> f s = Returns t)"
  by (cases m) auto

lemma call_Returns_iff:
  "call ev f (evs, w) = Returns t \<longleftrightarrow> (\<exists>w'. f w = Returns w' \<and> t = (evs @ [ev], w'))"
  by (cases "f w") auto

declare call.simps [simp del]

lemma call_optional_Returns_iff:
  "call_optional ev fns h (evs, w) = Returns t \<longleftrightarrow>
     (\<exists>w'. invoked fns h w w' \<and> t = (evs @ opt_event ev h, w'))"
  by (cases h) (auto simp: call_Returns_iff opt_event_def)

lemma call_if_Returns_iff:
  "call_if c ev f (evs, w) = Returns t \<longleftrightarrow>
     (\<exists>w'. bracketed c f w w' \<and> t = (evs @ (if c then [ev] else []), w'))"
  by (auto simp: call_if_def bracketed_def call_Returns_iff)

lemma ex_Returns_iff:
  "(\<exists>d. m = Returns d \<and> P d) \<longleftrightarrow> returned m \<and> P (state_of m)"
  by (cases m) auto

lemma on_device_Returns_iff:
  "on_device h w = Returns w' \<longleftrightarrow>
     returned (h (w_device w)) \<and> w' = w\<lparr>w_device := state_of (h (w_device w))\<rparr>"
  by (cases "h (w_device w)") (auto simp: on_device_def)

lemma render_protocol_iff:
  "render env w = Returns (evs, w') \<longleftrightarrow> render_protocol env w evs w'"
  unfolding render_def render_protocol_def Let_def
  by (simp add: andThen_Returns_iff call_Returns_iff call_optional_Returns_iff
        call_if_Returns_iff on_device_Returns_iff inc_renderPassIndex_def Debug_call_def
        ex_Returns_iff)


subsubsection \<open>log leaves the world alone\<close>

lemma state_of_andThen:
  "state_of m = w \<Longrightarrow> (\<And>e. m \<noteq> Throws e w \<Longrightarrow> state_of (f w) = w) \<Longrightarrow>
   state_of (andThen m f) = w"
  by (cases m) auto

lemma trace_state [simp]: "state_of (trace out channel line w) = w"
  by (simp add: trace_def split: option.splits)

lemma log_colors_state [simp]: "state_of (log_colors out numColor i w) = w"
proof (induction out numColor i w rule: log_colors.induct)
  case (1 out numColor i w)
  show ?case
    by (subst log_colors.simps) (auto intro!: state_of_andThen 1)
qed

lemma log_pass_state [simp]: "state_of (log_pass enabled out index w) = w"
  unfolding log_pass_def Let_def
  by (auto intro!: state_of_andThen split: sum.splits option.splits)

lemma Debug_call_log_state [simp]:
  "state_of (Debug_call dbg (\<lambda>w. log_pass enabled out (index w) w) w) = w"
  by (simp add: Debug_call_def)

lemma log_pass_Returns: "log_pass enabled out index w = Returns w' \<Longrightarrow> w' = w"
  using log_pass_state [of enabled out index w] by simp

lemma log_pass_off:
  "\<not> (enabled TRACEID_RENDER_PASS \<or> enabled TRACEID_RENDER_PASS_DETAIL) \<Longrightarrow>
   log_pass enabled out index w = Returns w"
  by (simp add: log_pass_def)

lemma log_colors_none: "log_colors out 0 i w = Returns w"
  by (subst log_colors.simps) simp

lemma log_pass_without_backBuffer:
  assumes "renderTarget (w_pass w) \<noteq> Null" and "\<forall>channel line. out channel line = None"
    and "name (w_pass w) \<noteq> None"
  shows "log_pass enabled out index w = Returns w"
  using assms
  by (auto simp: log_pass_def log_rt_def log_colors_none trace_def split: option.splits)

lemma log_pass_unnamed:
  assumes "renderTarget (w_pass w) \<noteq> Null" and "name (w_pass w) = None"
    and "enabled TRACEID_RENDER_PASS \<or> enabled TRACEID_RENDER_PASS_DETAIL"
  shows "log_pass enabled out index w = Throws TypeError w"
  using assms by (auto simp: log_pass_def log_rt_def)

subsubsection \<open>Stages\<close>

lemma andThen_Returns [simp]: "andThen m Returns = m"
  by (cases m) simp_all

lemma run_stages_Nil: "run_stages [] = Returns"
  by (rule ext) simp

lemma run_stages_single: "run_stages [f] = f"
  by (rule ext) (simp add: run_stages_Nil)

lemma run_stages_Cons: "(\<lambda>s. andThen (f s) (run_stages fs)) = run_stages (f # fs)"
  by (rule ext) simp

lemma render_eq_run:
  "render env w =
     run_stages (render_stages env (renderTarget (w_pass w) \<noteq> Undefined) (marker_name (w_pass w)))
       ([], w)"
  unfolding render_def render_stages_def later_stages_def Let_def
  by (simp only: run_stages_Cons [symmetric] run_stages_Nil andThen_Returns)

lemma run_stages_returns:
  "\<forall>f \<in> set fs. \<forall>s. returned (f s) \<Longrightarrow> returned (run_stages fs s)"
proof (induction fs arbitrary: s)
  case Nil
  show ?case by simp
next
  case (Cons f fs)
  then have "returned (f s)" by (cases s) simp
  then obtain s' where "f s = Returns s'" by (cases "f s") auto
  with Cons show ?case by simp
qed

lemma run_stages_preserves:
  "\<forall>f \<in> set fs. \<forall>s. obs (snd (state_of (f s))) = obs (snd s) \<Longrightarrow>
   obs (snd (state_of (run_stages fs s))) = obs (snd s)"
proof (induction fs arbitrary: s)
  case Nil
  show ?case by simp
next
  case (Cons f fs)
  then have step: "obs (snd (state_of (f s))) = obs (snd s)" by (cases s) simp
  show ?case
  proof (cases "f s")
    case (Returns s')
    with Cons.IH [of s'] Cons.prems step show ?thesis by simp
  next
    case (Throws e s')
    with step show ?thesis by simp
  qed
qed

lemma run_stages_subseq:
  "list_all2 emits evs fs \<Longrightarrow>
   \<exists>xs. events_of (run_stages fs s) = fst s @ xs \<and> subseq xs evs"
proof (induction evs fs arbitrary: s rule: list_all2_induct)
  case Nil
  show ?case by (cases s) simp
next
  case (Cons ev evs f fs)
  from Cons.hyps(1) have step: "events_of (f s) = fst s \<or> events_of (f s) = fst s @ [ev]"
    by (cases s) (simp add: emits_def)
  show ?case
  proof (cases "f s")
    case (Returns s')
    from Cons.IH [of s'] obtain xs where
      xs: "events_of (run_stages fs s') = fst s' @ xs" "subseq xs evs" by blast
    from step Returns have "fst s' = fst s \<or> fst s' = fst s @ [ev]"
      by (simp add: events_of_def)
    then show ?thesis
    proof
      assume "fst s' = fst s"
      with xs Returns show ?thesis
        by (intro exI [of _ xs]) (simp add: list_emb_Cons)
    next
      assume "fst s' = fst s @ [ev]"
      with xs Returns show ?thesis
        by (intro exI [of _ "ev # xs"]) simp
    qed
  next
    case (Throws e s')
    from step Throws have "fst s' = fst s \<or> fst s' = fst s @ [ev]"
      by (simp add: events_of_def)
    then show ?thesis
    proof
      assume "fst s' = fst s"
      with Throws show ?thesis
        by (intro exI [of _ "[]"]) (simp add: events_of_def)
    next
      assume "fst s' = fst s @ [ev]"
      with Throws show ?thesis
        by (intro exI [of _ "[ev]"]) (simp add: events_of_def)
    qed
  qed
qed

lemma emits_call: "emits ev (call ev f)"
  unfolding emits_def
proof
  fix s show "events_of (call ev f s) = fst s \<or> events_of (call ev f s) = fst s @ [ev]"
    by (cases s; cases "f (snd s)") (simp_all add: call.simps)
qed

lemma emits_call_optional: "emits ev (\<lambda>s. call_optional ev fns (h s) s)"
  unfolding emits_def
proof
  fix s
  show "events_of (call_optional ev fns (h s) s) = fst s \<or>
        events_of (call_optional ev fns (h s) s) = fst s @ [ev]"
    using emits_call [of ev] by (cases "h s"; cases s) (auto simp: emits_def events_of_def)
qed

lemma emits_call_if: "emits ev (call_if c ev f)"
  using emits_call [of ev f] by (auto simp: emits_def call_if_def events_of_def)

lemma emits_call_if_False: "emits ev' (call_if False ev f)"
  by (auto simp: emits_def call_if_def events_of_def)

lemma render_stages_emit:
  "list_all2 emits (full_order marker) (render_stages env realPass marker)"
  by (simp add: full_order_def render_stages_def later_stages_def emits_call
        emits_call_optional emits_call_if)

lemma render_events_subseq:
  "subseq (events_of (render env w)) (full_order (marker_name (w_pass w)))"
  using run_stages_subseq [OF render_stages_emit, where s = "([], w)" and env1 = env]
  by (auto simp: render_eq_run)

subsubsection \<open>The protocol for every run\<close>

lemma performs_call:
  "(\<lambda>s. andThen (call ev f s) (performs steps)) = performs ((ev, \<lambda>w. Some f) # steps)"
proof
  fix s :: run_state
  obtain evs w where s: "s = (evs, w)" by (cases s)
  show "andThen (call ev f s) (performs steps) = performs ((ev, \<lambda>w. Some f) # steps) s"
    by (cases "f w") (simp_all add: s call.simps)
qed

lemma performs_call_optional:
  "(\<lambda>s. andThen (call_optional ev fns (field (snd s)) s) (performs steps))
     = performs ((ev, \<lambda>w. map_option fns (field w)) # steps)"
proof
  fix s :: run_state
  obtain evs w where s: "s = (evs, w)" by (cases s)
  show "andThen (call_optional ev fns (field (snd s)) s) (performs steps)
          = performs ((ev, \<lambda>w. map_option fns (field w)) # steps) s"
  proof (cases "field w")
    case None
    then show ?thesis by (simp add: s)
  next
    case (Some k)
    then show ?thesis by (cases "fns k w") (simp_all add: s call.simps)
  qed
qed

lemma performs_call_if:
  "(\<lambda>s. andThen (call_if c ev f s) (performs steps))
     = performs ((ev, \<lambda>w. if c then Some f else None) # steps)"
proof
  fix s :: run_state
  obtain evs w where s: "s = (evs, w)" by (cases s)
  show "andThen (call_if c ev f s) (performs steps)
          = performs ((ev, \<lambda>w. if c then Some f else None) # steps) s"
    by (cases "f w") (simp_all add: s call.simps call_if_def)
qed

lemma performs_last: "call ev f = performs [(ev, \<lambda>w. Some f)]"
proof
  fix s :: run_state
  obtain evs w where s: "s = (evs, w)" by (cases s)
  show "call ev f s = performs [(ev, \<lambda>w. Some f)] s"
    by (cases "f w") (simp_all add: s call.simps)
qed

lemma render_steps_eq:
  "(PushGpuMarker (marker_name (w_pass w)),
      \<lambda>w'. Some (on_device (pushGpuMarker env (marker_name (w_pass w)))))
   # (DebugCall,
      \<lambda>w'. Some (Debug_call (debug env)
               (\<lambda>w. log_pass (Tracing_get env) (Debug_trace env)
                      (renderPassIndex (w_device w)) w)))
   # (CallBefore, \<lambda>w. map_option (closures env) (before (w_callbacks w)))
   # (StartPass, \<lambda>w'. if renderTarget (w_pass w) \<noteq> Undefined
                       then Some (startPass env) else None)
   # (CallExecute, \<lambda>w. map_option (closures env) (execute (w_callbacks w)))
   # (EndPass, \<lambda>w'. if renderTarget (w_pass w) \<noteq> Undefined
                     then Some (endPass env) else None)
   # (CallAfter, \<lambda>w. map_option (closures env) (after (w_callbacks w)))
   # (IncRenderPassIndex, \<lambda>w'. Some inc_renderPassIndex)
   # [(PopGpuMarker, \<lambda>w'. Some (on_device (popGpuMarker env)))]
   = render_steps env w"
proof -
  have "on_device h = (\<lambda>w. map_result (\<lambda>d. w\<lparr>w_device := d\<rparr>) (h (w_device w)))" for h
    by (rule ext) (simp add: on_device_def)
  moreover have "Debug_call (debug env) f = (\<lambda>w. if debug env then f w else Returns w)" for f
    by (rule ext) (simp add: Debug_call_def)
  moreover have "inc_renderPassIndex =
      (\<lambda>w. Returns (w\<lparr>w_device :=
               (w_device w)\<lparr>renderPassIndex := renderPassIndex (w_device w) + 1\<rparr>\<rparr>))"
    by (rule ext) (simp add: inc_renderPassIndex_def)
  ultimately show ?thesis
    unfolding render_steps_def by (simp only:)
qed

lemma render_performs: "render env w = performs (render_steps env w) ([], w)"
  unfolding render_def Let_def render_steps_eq [symmetric]
  by (simp only: performs_last [of PopGpuMarker] performs_call performs_call_if
        performs_call_optional [of _ _ "\<lambda>w. before (w_callbacks w)"]
        performs_call_optional [of _ _ "\<lambda>w. execute (w_callbacks w)"]
        performs_call_optional [of _ _ "\<lambda>w. after (w_callbacks w)"]
        fun_cong [OF performs_call])

subsubsection \<open>What a stage returns and leaves\<close>

lemma call_state: "snd (state_of (call ev f s)) = state_of (f (snd s))"
  by (cases s; cases "f (snd s)") (simp_all add: call.simps)

lemma call_returned: "returned (call ev f s) = returned (f (snd s))"
  by (cases s; cases "f (snd s)") (simp_all add: call.simps)

lemma on_device_returned: "returned (on_device h w) = returned (h (w_device w))"
  by (cases "h (w_device w)") (simp_all add: on_device_def)

lemma on_device_state:
  "state_of (on_device h w) = w\<lparr>w_device := state_of (h (w_device w))\<rparr>"
  by (cases "h (w_device w)") (simp_all add: on_device_def)

lemma later_stages_return:
  assumes "functions_return env" and "realPass \<longrightarrow> bracket_returns env"
  shows "\<forall>f \<in> set (later_stages env realPass). \<forall>s. returned (f s)"
proof -
  have opt: "returned (call_optional ev (closures env) h s)" for ev h s
    using assms(1)
    by (cases h) (simp_all add: call_returned functions_return_def always_returns_def)
  have cond: "returned (call_if realPass ev f s)" if "realPass \<longrightarrow> always_returns f" for ev f s
    using that by (simp add: call_if_def call_returned always_returns_def)
  have pop: "returned (call PopGpuMarker (on_device (popGpuMarker env)) s)" for s
    using assms(1)
    by (simp add: call_returned on_device_returned functions_return_def always_returns_def)
  have inc: "returned (call IncRenderPassIndex inc_renderPassIndex s)" for s
    by (simp add: call_returned inc_renderPassIndex_def)
  show ?thesis
    using assms(2) by (simp add: later_stages_def opt cond pop inc bracket_returns_def)
qed

lemma push_stage:
  assumes "functions_return env"
  shows "\<exists>d. call (PushGpuMarker marker) (on_device (pushGpuMarker env marker)) ([], w)
           = Returns ([PushGpuMarker marker], w\<lparr>w_device := d\<rparr>)"
proof -
  from assms have "returned (pushGpuMarker env marker (w_device w))"
    by (simp add: functions_return_def always_returns_def)
  then obtain d where "pushGpuMarker env marker (w_device w) = Returns d"
    by (cases "pushGpuMarker env marker (w_device w)") auto
  then show ?thesis
    by (intro exI [of _ d]) (simp add: call.simps on_device_def)
qed

lemma debug_stage:
  assumes "functions_return env"
    and "tracing env \<longrightarrow> renderTarget (w_pass w) \<noteq> Null \<and> name (w_pass w) \<noteq> None"
  shows "call DebugCall
           (Debug_call (debug env)
              (\<lambda>w. log_pass (Tracing_get env) (Debug_trace env) (renderPassIndex (w_device w)) w))
           (evs, w) = Returns (evs @ [DebugCall], w)"
proof -
  have "log_pass (Tracing_get env) (Debug_trace env) index w = Returns w" if "debug env" for index
  proof (cases "Tracing_get env TRACEID_RENDER_PASS \<or> Tracing_get env TRACEID_RENDER_PASS_DETAIL")
    case True
    with that assms show ?thesis
      by (intro log_pass_without_backBuffer) (simp_all add: tracing_def functions_return_def)
  next
    case False
    then show ?thesis by (rule log_pass_off)
  qed
  then show ?thesis
    by (simp add: call.simps Debug_call_def)
qed

lemma render_returns:
  assumes "functions_return env"
    and "renderTarget (w_pass w) \<noteq> Undefined \<longrightarrow> bracket_returns env"
    and "tracing env \<longrightarrow> renderTarget (w_pass w) \<noteq> Null \<and> name (w_pass w) \<noteq> None"
  shows "returned (render env w)"
proof -
  let ?real = "renderTarget (w_pass w) \<noteq> Undefined"
  obtain d where push:
    "call (PushGpuMarker (marker_name (w_pass w)))
       (on_device (pushGpuMarker env (marker_name (w_pass w)))) ([], w)
     = Returns ([PushGpuMarker (marker_name (w_pass w))], w\<lparr>w_device := d\<rparr>)"
    using push_stage [OF assms(1)] by blast
  have dbg: "call DebugCall
       (Debug_call (debug env)
          (\<lambda>w. log_pass (Tracing_get env) (Debug_trace env) (renderPassIndex (w_device w)) w))
       ([PushGpuMarker (marker_name (w_pass w))], w\<lparr>w_device := d\<rparr>)
     = Returns ([PushGpuMarker (marker_name (w_pass w))] @ [DebugCall], w\<lparr>w_device := d\<rparr>)"
    using assms(3) by (intro debug_stage [OF assms(1)]) simp
  have "returned (run_stages (later_stages env ?real)
          ([PushGpuMarker (marker_name (w_pass w))] @ [DebugCall], w\<lparr>w_device := d\<rparr>))"
    using later_stages_return [OF assms(1,2)] by (rule run_stages_returns)
  then show ?thesis
    by (simp add: render_eq_run render_stages_def push dbg)
qed

lemma render_returns_quiet:
  assumes "functions_return env" and "bracket_returns env" and "\<not> tracing env"
  shows "returned (render env w)"
  using assms by (intro render_returns) simp_all

subsubsection \<open>What render leaves of the pass\<close>

lemma render_stages_keep_pass:
  assumes "functions_preserve (\<lambda>w. obs (w_pass w)) env"
    and "realPass \<longrightarrow> bracket_preserves (\<lambda>w. obs (w_pass w)) env"
  shows "\<forall>f \<in> set (render_stages env realPass marker).
           \<forall>s. obs (w_pass (snd (state_of (f s)))) = obs (w_pass (snd s))"
proof -
  have opt: "obs (w_pass (snd (state_of (call_optional ev (closures env) h s)))) = obs (w_pass (snd s))"
    for ev h s
    using assms(1) by (cases h) (simp_all add: call_state functions_preserve_def preserves_def)
  have cond: "obs (w_pass (snd (state_of (call_if realPass ev f s)))) = obs (w_pass (snd s))"
    if "realPass \<longrightarrow> preserves (\<lambda>w. obs (w_pass w)) f" for ev f s
    using that by (simp add: call_if_def call_state preserves_def)
  have dev: "obs (w_pass (snd (state_of (call ev (on_device h) s)))) = obs (w_pass (snd s))"
    for ev h s
    by (simp add: call_state on_device_state)
  have inc: "obs (w_pass (snd (state_of (call IncRenderPassIndex inc_renderPassIndex s))))
               = obs (w_pass (snd s))" for s
    by (simp add: call_state inc_renderPassIndex_def)
  have dbg: "obs (w_pass (snd (state_of (call DebugCall
        (Debug_call (debug env)
           (\<lambda>w. log_pass (Tracing_get env) (Debug_trace env) (renderPassIndex (w_device w)) w))
        s)))) = obs (w_pass (snd s))" for s
    by (simp add: call_state)
  show ?thesis
    using assms(2)
    by (simp add: render_stages_def later_stages_def opt cond dev inc dbg bracket_preserves_def)
qed

lemma render_keeps_pass:
  assumes "functions_preserve (\<lambda>w. obs (w_pass w)) env"
    and "renderTarget (w_pass w) \<noteq> Undefined \<longrightarrow> bracket_preserves (\<lambda>w. obs (w_pass w)) env"
  shows "obs (w_pass (snd (state_of (render env w)))) = obs (w_pass w)"
  using run_stages_preserves [where obs = "\<lambda>w. obs (w_pass w)" and s = "([], w)",
      OF render_stages_keep_pass [OF assms]]
  by (simp add: render_eq_run)

subsubsection \<open>The counter\<close>

lemma preserves_Returns: "preserves obs f \<Longrightarrow> f w = Returns w' \<Longrightarrow> obs w' = obs w"
  unfolding preserves_def by (metis state_of.simps(1))

lemma invoked_preserves:
  "functions_preserve obs env \<Longrightarrow> invoked (closures env) h w w' \<Longrightarrow> obs w' = obs w"
  by (cases h) (auto simp: functions_preserve_def dest: preserves_Returns)

lemma bracketed_preserves:
  "realPass \<longrightarrow> preserves obs f \<Longrightarrow> bracketed realPass f w w' \<Longrightarrow> obs w' = obs w"
  by (auto simp: bracketed_def split: if_splits dest: preserves_Returns)

lemma render_index:
  assumes ret: "returned (render env w)"
    and fns: "functions_preserve (\<lambda>w. renderPassIndex (w_device w)) env"
    and brk: "bracket_preserves (\<lambda>w. renderPassIndex (w_device w)) env"
    and mrk: "markers_preserve renderPassIndex env"
  shows "renderPassIndex (w_device (snd (state_of (render env w)))) = renderPassIndex (w_device w) + 1"
proof -
  let ?idx = "\<lambda>w. renderPassIndex (w_device w)"
  let ?real = "renderTarget (w_pass w) \<noteq> Undefined"
  from ret obtain evs w' where r: "render env w = Returns (evs, w')"
    by (cases "render env w") auto
  then have "render_protocol env w evs w'"
    by (simp only: render_protocol_iff)
  then obtain d1 w2 w3 w4 w5 w6 w7 d8 where
    push: "pushGpuMarker env (marker_name (w_pass w)) (w_device w) = Returns d1" and
    dbg: "(if debug env
           then log_pass (Tracing_get env) (Debug_trace env) (renderPassIndex d1)
                  (w\<lparr>w_device := d1\<rparr>)
           else Returns (w\<lparr>w_device := d1\<rparr>)) = Returns w2" and
    before: "invoked (closures env) (before (w_callbacks w2)) w2 w3" and
    start: "bracketed ?real (startPass env) w3 w4" and
    exec: "invoked (closures env) (execute (w_callbacks w4)) w4 w5" and
    finish: "bracketed ?real (endPass env) w5 w6" and
    after: "invoked (closures env) (after (w_callbacks w6)) w6 w7" and
    pop: "popGpuMarker env ((w_device w7)\<lparr>renderPassIndex := renderPassIndex (w_device w7) + 1\<rparr>)
            = Returns d8" and
    w': "w' = w7\<lparr>w_device := d8\<rparr>"
    unfolding render_protocol_def by blast
  from mrk push have 1: "renderPassIndex d1 = renderPassIndex (w_device w)"
    by (auto simp: markers_preserve_def dest: preserves_Returns)
  from dbg have "w2 = w\<lparr>w_device := d1\<rparr>"
    by (auto dest: log_pass_Returns split: if_splits)
  with 1 have 2: "?idx w2 = ?idx w" by simp
  from invoked_preserves [OF fns before] have 3: "?idx w3 = ?idx w2" .
  from brk have b: "?real \<longrightarrow> preserves ?idx (startPass env)" "?real \<longrightarrow> preserves ?idx (endPass env)"
    by (simp_all add: bracket_preserves_def)
  from bracketed_preserves [OF b(1) start] have 4: "?idx w4 = ?idx w3" .
  from invoked_preserves [OF fns exec] have 5: "?idx w5 = ?idx w4" .
  from bracketed_preserves [OF b(2) finish] have 6: "?idx w6 = ?idx w5" .
  from invoked_preserves [OF fns after] have 7: "?idx w7 = ?idx w6" .
  from mrk have "preserves renderPassIndex (popGpuMarker env)"
    by (simp add: markers_preserve_def)
  from preserves_Returns [OF this pop]
  have 8: "renderPassIndex d8 = renderPassIndex (w_device w7) + 1"
    by simp
  from r w' 1 2 3 4 5 6 7 8 show ?thesis by simp
qed

subsubsection \<open>Without the pass bracket\<close>

lemma render_ignores_bracket:
  "renderTarget (w_pass w) = Undefined \<Longrightarrow>
   render (env\<lparr>startPass := f1, endPass := f2\<rparr>) w = render env w"
  by (simp add: render_def call_if_def)

lemma render_no_bracket:
  assumes "renderTarget (w_pass w) = Undefined"
  shows "StartPass \<notin> set (events_of (render env w))"
    and "EndPass \<notin> set (events_of (render env w))"
proof -
  let ?evs = "[PushGpuMarker (marker_name (w_pass w)), DebugCall, CallBefore, DebugCall,
               CallExecute, DebugCall, CallAfter, IncRenderPassIndex, PopGpuMarker]"
  have "list_all2 emits ?evs (render_stages env False (marker_name (w_pass w)))"
    by (simp add: render_stages_def later_stages_def emits_call emits_call_optional
          emits_call_if_False)
  from run_stages_subseq [OF this, of "([], w)"] assms
  have "subseq (events_of (render env w)) ?evs"
    by (auto simp: render_eq_run)
  then have "set (events_of (render env w)) \<subseteq> set ?evs"
    by (auto elim: list_emb_set)
  then show "StartPass \<notin> set (events_of (render env w))"
    and "EndPass \<notin> set (events_of (render env w))"
    by auto
qed


subsubsection \<open>The order of the calls\<close>


lemma marking_collaborators_return:
  "functions_return marking_collaborators" "bracket_returns marking_collaborators"
  "\<not> tracing marking_collaborators"
  by (simp_all add: functions_return_def bracket_returns_def tracing_def always_returns_def
        marking_collaborators_def mark_def)

lemma marking_collaborators_preserve:
  "functions_preserve (\<lambda>w. obs (w_device w)) marking_collaborators"
  "bracket_preserves (\<lambda>w. obs (w_device w)) marking_collaborators"
  "markers_preserve obs' marking_collaborators"
  by (simp_all add: functions_preserve_def bracket_preserves_def markers_preserve_def
        preserves_def marking_collaborators_def mark_def)

lemma render_marking:
  "render marking_collaborators
     (initialised_world None \<lparr>before = Some 1, execute = Some 2, after = Some 3\<rparr>)
   = Returns
       ([PushGpuMarker ''Pass:undefined'', DebugCall, CallBefore, StartPass, CallExecute, EndPass,
         CallAfter, IncRenderPassIndex, PopGpuMarker],
        \<lparr>w_pass = (state_of (init example_device Null new_RenderPass))\<lparr>name := Some ''bSxEa''\<rparr>,
         w_callbacks = \<lparr>before = Some 1, execute = Some 2, after = Some 3\<rparr>,
         w_device = example_device\<lparr>renderPassIndex := 1\<rparr>\<rparr>)"
  by (simp add: render_def initialised_world_def marking_collaborators_def mark_def call.simps
        call_if_def on_device_def Debug_call_def inc_renderPassIndex_def marker_name_def
        init_eq after_init_def new_RenderPass_def example_device_def)


text \<open>
  A function field is read where its call is reached: function 4, as \<open>before\<close>, makes
  function 2 the \<open>execute\<close> of a pass constructed without one, and \<open>render\<close> calls it.
\<close>

lemma render_reads_fields_late:
  "render marking_collaborators
     (initialised_world None \<lparr>before = Some 4, execute = None, after = None\<rparr>)
   = Returns
       ([PushGpuMarker ''Pass:undefined'', DebugCall, CallBefore, StartPass, CallExecute, EndPass,
         IncRenderPassIndex, PopGpuMarker],
        \<lparr>w_pass = (state_of (init example_device Null new_RenderPass))\<lparr>name := Some ''SxE''\<rparr>,
         w_callbacks = \<lparr>before = Some 4, execute = Some 2, after = None\<rparr>,
         w_device = example_device\<lparr>renderPassIndex := 1\<rparr>\<rparr>)"
  by (simp add: render_def initialised_world_def marking_collaborators_def mark_def call.simps
        call_if_def on_device_def Debug_call_def inc_renderPassIndex_def marker_name_def
        init_eq after_init_def new_RenderPass_def example_device_def)

subsubsection \<open>A pass never initialised\<close>

text \<open>
  C3, as the code has it: on a pass whose \<open>renderTarget\<close> is \<open>undefined\<close>, \<open>render\<close> never
  calls \<open>startPass\<close> or \<open>endPass\<close>, and its outcome does not depend on them; a run returns
  exactly when the marker functions, \<open>log\<close> in a diagnostic build, and \<open>before\<close>,
  \<open>execute\<close> and \<open>after\<close>, each called if set where its call is reached, return one after
  the other; \<open>render\<close> returns when the functions it is given return and, where a
  diagnostic build traces render passes, the pass has a name; \<open>colorArrayOps\<close> and
  \<open>depthStencilOps\<close> are as before when the called functions leave them alone.
\<close>

theorem render_without_init:
  assumes "renderTarget (w_pass w) = Undefined"
  shows "StartPass \<notin> set (events_of (render env w)) \<and>
         EndPass \<notin> set (events_of (render env w)) \<and>
         render (env\<lparr>startPass := f1, endPass := f2\<rparr>) w = render env w \<and>
         (render env w = Returns (evs, w') \<longleftrightarrow>
            (\<exists>d1 w2 w3 w5 w7 d8.
               pushGpuMarker env (marker_name (w_pass w)) (w_device w) = Returns d1 \<and>
               (if debug env
                then log_pass (Tracing_get env) (Debug_trace env) (renderPassIndex d1)
                       (w\<lparr>w_device := d1\<rparr>)
                else Returns (w\<lparr>w_device := d1\<rparr>)) = Returns w2 \<and>
               invoked (closures env) (before (w_callbacks w2)) w2 w3 \<and>
               invoked (closures env) (execute (w_callbacks w3)) w3 w5 \<and>
               invoked (closures env) (after (w_callbacks w5)) w5 w7 \<and>
               popGpuMarker env
                 ((w_device w7)\<lparr>renderPassIndex := renderPassIndex (w_device w7) + 1\<rparr>)
                 = Returns d8 \<and>
               evs = [PushGpuMarker (marker_name (w_pass w)), DebugCall]
                     @ opt_event CallBefore (before (w_callbacks w2))
                     @ opt_event CallExecute (execute (w_callbacks w3))
                     @ opt_event CallAfter (after (w_callbacks w5))
                     @ [IncRenderPassIndex, PopGpuMarker] \<and>
               w' = w7\<lparr>w_device := d8\<rparr>)) \<and>
         (functions_return env \<and> (tracing env \<longrightarrow> name (w_pass w) \<noteq> None) \<longrightarrow>
            returned (render env w)) \<and>
         (functions_preserve (\<lambda>w. colorArrayOps (w_pass w)) env \<longrightarrow>
            colorArrayOps (w_pass (snd (state_of (render env w)))) = colorArrayOps (w_pass w)) \<and>
         (functions_preserve (\<lambda>w. depthStencilOps (w_pass w)) env \<longrightarrow>
            depthStencilOps (w_pass (snd (state_of (render env w)))) = depthStencilOps (w_pass w))"
proof (intro conjI impI)
  show "StartPass \<notin> set (events_of (render env w))"
    and "EndPass \<notin> set (events_of (render env w))"
    using assms by (rule render_no_bracket)+
  show "render (env\<lparr>startPass := f1, endPass := f2\<rparr>) w = render env w"
    using assms by (rule render_ignores_bracket)
  show "render env w = Returns (evs, w') \<longleftrightarrow>
          (\<exists>d1 w2 w3 w5 w7 d8.
             pushGpuMarker env (marker_name (w_pass w)) (w_device w) = Returns d1 \<and>
             (if debug env
              then log_pass (Tracing_get env) (Debug_trace env) (renderPassIndex d1)
                     (w\<lparr>w_device := d1\<rparr>)
              else Returns (w\<lparr>w_device := d1\<rparr>)) = Returns w2 \<and>
             invoked (closures env) (before (w_callbacks w2)) w2 w3 \<and>
             invoked (closures env) (execute (w_callbacks w3)) w3 w5 \<and>
             invoked (closures env) (after (w_callbacks w5)) w5 w7 \<and>
             popGpuMarker env
               ((w_device w7)\<lparr>renderPassIndex := renderPassIndex (w_device w7) + 1\<rparr>)
               = Returns d8 \<and>
             evs = [PushGpuMarker (marker_name (w_pass w)), DebugCall]
                   @ opt_event CallBefore (before (w_callbacks w2))
                   @ opt_event CallExecute (execute (w_callbacks w3))
                   @ opt_event CallAfter (after (w_callbacks w5))
                   @ [IncRenderPassIndex, PopGpuMarker] \<and>
             w' = w7\<lparr>w_device := d8\<rparr>)"
    using assms by (simp add: render_protocol_iff render_protocol_def bracketed_def)
  show "returned (render env w)"
    if "functions_return env \<and> (tracing env \<longrightarrow> name (w_pass w) \<noteq> None)"
    using that assms by (intro render_returns) simp_all
  show "colorArrayOps (w_pass (snd (state_of (render env w)))) = colorArrayOps (w_pass w)"
    if "functions_preserve (\<lambda>w. colorArrayOps (w_pass w)) env"
    using that assms by (intro render_keeps_pass) simp_all
  show "depthStencilOps (w_pass (snd (state_of (render env w)))) = depthStencilOps (w_pass w)"
    if "functions_preserve (\<lambda>w. depthStencilOps (w_pass w)) env"
    using that assms by (intro render_keeps_pass) simp_all
qed

lemma faulty_bracket_returns: "functions_return faulty_bracket" "tracing faulty_bracket"
  by (simp_all add: functions_return_def tracing_def always_returns_def faulty_bracket_def
        tracing_collaborators_def marking_collaborators_def mark_def)

lemma faulty_bracket_preserves:
  "functions_preserve (\<lambda>w. colorArrayOps (w_pass w)) faulty_bracket"
  "functions_preserve (\<lambda>w. depthStencilOps (w_pass w)) faulty_bracket"
  by (simp_all add: functions_preserve_def preserves_def faulty_bracket_def
        tracing_collaborators_def marking_collaborators_def mark_def)

lemma render_named_uninitialised:
  "render faulty_bracket (new_world (Some ''p'') \<lparr>before = Some 1, execute = Some 2, after = Some 3\<rparr>)
   = Returns
       ([PushGpuMarker ''Pass:p'', DebugCall, CallBefore, CallExecute, CallAfter,
         IncRenderPassIndex, PopGpuMarker],
        \<lparr>w_pass = new_RenderPass\<lparr>name := Some ''pbxa''\<rparr>,
         w_callbacks = \<lparr>before = Some 1, execute = Some 2, after = Some 3\<rparr>,
         w_device = example_device\<lparr>renderPassIndex := 1\<rparr>\<rparr>)"
  by (simp add: render_def new_world_def faulty_bracket_def tracing_collaborators_def
        marking_collaborators_def mark_def call.simps call_if_def on_device_def Debug_call_def
        inc_renderPassIndex_def marker_name_def new_RenderPass_def example_device_def
        log_pass_without_backBuffer)

theorem render_without_init_witness:
  "renderTarget (w_pass (new_world (Some ''p'')
      \<lparr>before = Some 1, execute = Some 2, after = Some 3\<rparr>)) = Undefined \<and>
   returned (render faulty_bracket
      (new_world (Some ''p'') \<lparr>before = Some 1, execute = Some 2, after = Some 3\<rparr>)) \<and>
   events_of (render faulty_bracket
      (new_world (Some ''p'') \<lparr>before = Some 1, execute = Some 2, after = Some 3\<rparr>))
     = [PushGpuMarker ''Pass:p'', DebugCall, CallBefore, CallExecute, CallAfter,
        IncRenderPassIndex, PopGpuMarker] \<and>
   name (w_pass (snd (state_of (render faulty_bracket
      (new_world (Some ''p'') \<lparr>before = Some 1, execute = Some 2, after = Some 3\<rparr>)))))
     = Some ''pbxa'' \<and>
   colorArrayOps (w_pass (snd (state_of (render faulty_bracket
      (new_world (Some ''p'') \<lparr>before = Some 1, execute = Some 2, after = Some 3\<rparr>))))) = [] \<and>
   depthStencilOps (w_pass (snd (state_of (render faulty_bracket
      (new_world (Some ''p'') \<lparr>before = Some 1, execute = Some 2, after = Some 3\<rparr>))))) = None"
proof -
  let ?w = "new_world (Some ''p'') \<lparr>before = Some 1, execute = Some 2, after = Some 3\<rparr>"
  have undefined: "renderTarget (w_pass ?w) = Undefined"
    and named: "name (w_pass ?w) \<noteq> None"
    and ops: "colorArrayOps (w_pass ?w) = []" "depthStencilOps (w_pass ?w) = None"
    by (simp_all add: new_world_def new_RenderPass_def)
  note without = render_without_init [OF undefined, of faulty_bracket]
  from without faulty_bracket_returns(1) named
  have returns: "returned (render faulty_bracket ?w)"
    by blast
  from without faulty_bracket_preserves ops
  have kept: "colorArrayOps (w_pass (snd (state_of (render faulty_bracket ?w)))) = []"
    "depthStencilOps (w_pass (snd (state_of (render faulty_bracket ?w)))) = None"
    by simp_all
  have "events_of (render faulty_bracket ?w)
          = [PushGpuMarker ''Pass:p'', DebugCall, CallBefore, CallExecute, CallAfter,
             IncRenderPassIndex, PopGpuMarker]"
    and "name (w_pass (snd (state_of (render faulty_bracket ?w)))) = Some ''pbxa''"
    by (subst render_named_uninitialised, simp)+
  with undefined returns kept show ?thesis
    by (intro conjI)
qed

text \<open>
  C3 as stated has \<open>render\<close> return on every pass never initialised. In a diagnostic build
  with the render pass channel on, \<open>render\<close> on a pass constructed without a name and with
  a do-nothing \<open>execute\<close> throws a TypeError out of \<open>log\<close>, after \<open>Debug.call\<close> and before
  \<open>execute\<close> is reached; every function it is given returns.
\<close>

theorem render_unnamed_counterexample:
  "renderTarget (w_pass (new_world None (new_Callbacks (Some 0)))) = Undefined \<and>
   functions_return tracing_collaborators \<and>
   closures tracing_collaborators 0 = Returns \<and>
   render tracing_collaborators (new_world None (new_Callbacks (Some 0)))
     = Throws TypeError
         ([PushGpuMarker ''Pass:undefined'', DebugCall], new_world None (new_Callbacks (Some 0)))"
  by (simp add: render_def new_world_def new_Callbacks_def tracing_collaborators_def
        marking_collaborators_def mark_def call.simps call_if_def on_device_def Debug_call_def
        marker_name_def new_RenderPass_def example_device_def log_pass_unnamed
        functions_return_def always_returns_def)

subsubsection \<open>The lines that log writes\<close>

text \<open>
  A named pass never initialised, logged with index 0: one line on the render pass
  channel.
\<close>

lemma log_pass_line:
  "log_pass (\<lambda>channel. channel = TRACEID_RENDER_PASS)
     (\<lambda>channel line.
        if channel = TRACEID_RENDER_PASS \<and>
           line = ''0 : p'' @ replicate 19 CHR '' '' @ '' RT: NULL '' @ replicate 20 CHR '' ''
        then None else Some (Raised 0))
     0 (new_world (Some ''p'') cbs)
   = Returns (new_world (Some ''p'') cbs)"
proof -
  have rt: "log_rt (new_world (Some ''p'') cbs) = Null"
    by (simp add: log_rt_def new_world_def new_RenderPass_def)
  have info: "log_rtInfo (w_pass (new_world (Some ''p'') cbs)) Null 0 False False = '' RT: NULL ''"
    by (simp add: log_rtInfo_def new_world_def new_RenderPass_def)
  have index: "toString 0 = ''0''"
    by (simp add: toString_def nat_digits.simps)
  have fields: "name (w_pass (new_world (Some ''p'') cbs)) = Some ''p''"
    "depthStencilOps (w_pass (new_world (Some ''p'') cbs)) = None"
    by (simp_all add: new_world_def new_RenderPass_def)
  show ?thesis
    unfolding log_pass_def Let_def rt
    by (simp add: info index fields log_colors_none trace_def padEnd_def)
qed

text \<open>
  A pass initialised for the default framebuffer of a device whose back buffer has a
  supplied framebuffer and depth: the line of the pass, of its color attachment and of
  its depth attachment.
\<close>

lemma log_pass_lines:
  "log_pass (\<lambda>channel. True)
     (\<lambda>channel line.
        if (channel, line) \<in>
           {(TRACEID_RENDER_PASS,
             ''3 : p'' @ replicate 19 CHR '' ''
               @ '' RT: back [Color][Depth] samples: 1''),
            (TRACEID_RENDER_PASS_DETAIL, ''    color[0]: load->store ''),
            (TRACEID_RENDER_PASS_DETAIL, ''    depthOps: load->discard'')}
        then None else Some (Raised 0))
     3
     \<lparr>w_pass = state_of (init example_device Null (new_RenderPass\<lparr>name := Some ''p''\<rparr>)),
      w_callbacks = cbs,
      w_device = example_device\<lparr>backBuffer := Obj
        \<lparr>bb_name = Some ''back'',
         bb_impl = Some \<lparr>assignedColorTexture = False, suppliedColorFramebuffer = True\<rparr>,
         bb_colorBuffers = None, bb_depth = True, bb_stencil = False\<rparr>\<rparr>\<rparr>
   = Returns
       \<lparr>w_pass = state_of (init example_device Null (new_RenderPass\<lparr>name := Some ''p''\<rparr>)),
        w_callbacks = cbs,
        w_device = example_device\<lparr>backBuffer := Obj
          \<lparr>bb_name = Some ''back'',
           bb_impl = Some \<lparr>assignedColorTexture = False, suppliedColorFramebuffer = True\<rparr>,
           bb_colorBuffers = None, bb_depth = True, bb_stencil = False\<rparr>\<rparr>\<rparr>"
  by (simp add: log_pass_def log_rt_def log_rtInfo_def log_color_line_def log_colors.simps
        trace_def padEnd_def toString_def nat_digits.simps init_eq after_init_def
        num_allocated_def allocated_ops_def single_sample_rule_def mipmaps_rule_def
        new_ColorAttachmentOps_def new_DepthStencilAttachmentOps_def new_RenderPass_def
        example_device_def)

end
